theory Spec2Isabelle
  imports Complex_Main "HOL-Library.Char_ord" "HOL-Library.List_Lexorder" "HOL-Library.AList"
begin

section \<open>ATM Milano tram schedule query tool (check-tram-schedule.py)\<close>

text \<open>
  A shallow embedding of \<^verbatim>\<open>skills/atm-tram-schedule/scripts/check-tram-schedule.py\<close>.

  Python strings are modelled as \<^typ>\<open>string\<close>, a character standing for a code
  point; comparison of strings is the lexicographic order on character codes, as Python's
  is on code points. A Python \<^verbatim>\<open>dict\<close> keeps its keys in insertion order and the
  code iterates over dictionaries, so a dictionary is an association list with distinct
  keys, written to with \<^const>\<open>AList.update\<close> (an existing key keeps its
  position, a new key goes last).

  \<^verbatim>\<open>str.lower()\<close> is a library function whose result depends on the Unicode tables
  and can be longer than its argument. It is not defined here: the functions that call it
  take it as the parameter \<open>lower\<close>, and a run reads it from the world (\<open>str_lower\<close>).
\<close>

subsection \<open>Strings\<close>

text \<open>\<^verbatim>\<open>s.replace(old, new)\<close> for a one-character \<^verbatim>\<open>old\<close>.\<close>

definition replace_char :: "char \<Rightarrow> string \<Rightarrow> string \<Rightarrow> string" where
  "replace_char old new s = concat (map (\<lambda>c. if c = old then new else [c]) s)"

text \<open>\<^verbatim>\<open>sub in s\<close> on strings: \<^verbatim>\<open>sub\<close> occurs in \<^verbatim>\<open>s\<close> as a contiguous run.\<close>

fun starts_with :: "string \<Rightarrow> string \<Rightarrow> bool" where
  "starts_with [] s = True"
| "starts_with (c # cs) [] = False"
| "starts_with (c # cs) (d # ds) = (c = d \<and> starts_with cs ds)"

fun str_in :: "string \<Rightarrow> string \<Rightarrow> bool" where
  "str_in sub [] = (sub = [])"
| "str_in sub (d # ds) = (starts_with sub (d # ds) \<or> str_in sub ds)"

text \<open>\<^verbatim>\<open>sep.join(parts)\<close>.\<close>

fun join :: "string \<Rightarrow> string list \<Rightarrow> string" where
  "join sep [] = []"
| "join sep [p] = p"
| "join sep (p # q # ps) = p @ sep @ join sep (q # ps)"

text \<open>\<^verbatim>\<open>str(n)\<close> for a length.\<close>

fun str_nat :: "nat \<Rightarrow> string" where
  "str_nat n =
     (if n < 10 then [''0123456789'' ! n]
      else str_nat (n div 10) @ [''0123456789'' ! (n mod 10)])"

subsection \<open>Configuration\<close>

definition GTFS_URL :: string where
  "GTFS_URL = ''https://dati.comune.milano.it/gtfs.zip''"

definition GTFS_CACHE_TTL :: int where
  "GTFS_CACHE_TTL = 86400"

definition SCHEDULE_CACHE_TTL :: int where
  "SCHEDULE_CACHE_TTL = 3600"

definition DATA_DIR :: string where
  "DATA_DIR = ''/data/generated/atm-tram-schedule''"

definition GTFS_DIR :: string where
  "GTFS_DIR = DATA_DIR @ ''/gtfs''"

definition GTFS_ZIP :: string where
  "GTFS_ZIP = GTFS_DIR @ ''/gtfs.zip''"

definition SERVICE_PATTERNS :: "(string \<times> string) list" where
  "SERVICE_PATTERNS =
     [(''weekday'', '' LV ''), (''saturday'', '' SAB ''), (''sunday'', '' FEST '')]"

subsection \<open>The query fingerprint and the report's file name\<close>

text \<open>
  \<^verbatim>\<open>cache_input = f"{line}:{stop_name}:{schedule_type}"\<close>. The digest
  \<^verbatim>\<open>hashlib.sha256(cache_input.encode()).hexdigest()\<close> is a library function;
  it is the parameter \<open>sha256\<close> of \<open>cache_hash\<close>.
\<close>

definition cache_input :: "string \<Rightarrow> string \<Rightarrow> string \<Rightarrow> string" where
  "cache_input line stop_name schedule_type =
     line @ '':'' @ stop_name @ '':'' @ schedule_type"

definition cache_hash :: "(string \<Rightarrow> string) \<Rightarrow> string \<Rightarrow> string \<Rightarrow> string \<Rightarrow> string" where
  "cache_hash sha256 line stop_name schedule_type =
     sha256 (cache_input line stop_name schedule_type)"

definition cache_key_of :: "(string \<Rightarrow> string) \<Rightarrow> string \<Rightarrow> string \<Rightarrow> string \<Rightarrow> string" where
  "cache_key_of sha256 line stop_name schedule_type =
     ''atm-tram-schedule:cache:'' @ cache_hash sha256 line stop_name schedule_type"

text \<open>
  The slug of the report's file name:
  \<^verbatim>\<open>f"line{line}-{stop_name.lower()[:30].replace(' ', '')}"\<close> for a stop name,
  \<^verbatim>\<open>f"line{line}-all"\<close> without one. The parameter \<open>lower\<close> is
  \<^verbatim>\<open>str.lower\<close>.
\<close>

definition slug_fragment :: "(string \<Rightarrow> string) \<Rightarrow> string \<Rightarrow> string" where
  "slug_fragment lower stop_name = replace_char (CHR '' '') [] (take 30 (lower stop_name))"

definition slug :: "(string \<Rightarrow> string) \<Rightarrow> string \<Rightarrow> string \<Rightarrow> string" where
  "slug lower line stop_name =
     (if stop_name \<noteq> [] then ''line'' @ line @ ''-'' @ slug_fragment lower stop_name
      else ''line'' @ line @ ''-all'')"

text \<open>
  The fragment in the order the specification gives: lowercase, strip the spaces, then
  truncate to 30 characters.
\<close>

definition spec_slug_fragment :: "(string \<Rightarrow> string) \<Rightarrow> string \<Rightarrow> string" where
  "spec_slug_fragment lower stop_name =
     take 30 (filter (\<lambda>c. c \<noteq> CHR '' '') (lower stop_name))"

subsection \<open>The GTFS tables\<close>

text \<open>
  A row of each table as \<^verbatim>\<open>csv.DictReader\<close> yields it, with the columns the
  code reads; a field is named after its column, with the prefix \<open>r_\<close>, \<open>s_\<close>, \<open>t_\<close>
  or \<open>st_\<close> for routes.txt, stops.txt, trips.txt and stop\_times.txt. A column the code
  reads with \<^verbatim>\<open>row[...]\<close> is a string; a column it reads with
  \<^verbatim>\<open>row.get(..., default)\<close> is optional, \<open>None\<close> when the table has no such
  column. A table that cannot be read this way (a missing file, a missing column) makes
  the run end with an exception; see \<open>routes_txt\<close> and the fields after it in the
  record \<open>world\<close>.
\<close>

record routes_row =
  r_route_id :: string
  r_route_short_name :: string
  r_route_long_name :: string
  r_route_type :: string

record stops_row =
  s_stop_id :: string
  s_stop_name :: string
  s_stop_lat :: "string option"
  s_stop_lon :: "string option"

record trips_row =
  t_route_id :: string
  t_service_id :: string
  t_trip_id :: string
  t_trip_headsign :: "string option"

record stop_times_row =
  st_trip_id :: string
  st_stop_id :: string
  st_departure_time :: string

text \<open>
  The values of the dictionaries \<^verbatim>\<open>routes\<close> and \<^verbatim>\<open>stops\<close> (the key
  \<^verbatim>\<open>'type'\<close> is the field \<open>rtype\<close>).
\<close>

record route_data =
  short_name :: string
  long_name :: string
  rtype :: string

record stop_data =
  name :: string
  lat :: string
  lon :: string

type_synonym 'v dict = "(string \<times> 'v) list"

definition load_routes :: "routes_row list \<Rightarrow> route_data dict" where
  "load_routes rows =
     foldl (\<lambda>routes row.
        AList.update (r_route_id row)
          \<lparr>short_name = r_route_short_name row, long_name = r_route_long_name row,
           rtype = r_route_type row\<rparr> routes) [] rows"

definition load_stops :: "stops_row list \<Rightarrow> stop_data dict" where
  "load_stops rows =
     foldl (\<lambda>stops row.
        AList.update (s_stop_id row)
          \<lparr>name = s_stop_name row,
           lat = (case s_stop_lat row of None \<Rightarrow> [] | Some v \<Rightarrow> v),
           lon = (case s_stop_lon row of None \<Rightarrow> [] | Some v \<Rightarrow> v)\<rparr> stops) [] rows"

subsection \<open>Route resolution, trip selection, stop filter\<close>

text \<open>The loop of \<^verbatim>\<open>find_route_id\<close> over \<^verbatim>\<open>routes.items()\<close>.\<close>

fun find_route_scan :: "string \<Rightarrow> route_data dict \<Rightarrow> string option" where
  "find_route_scan line [] = None"
| "find_route_scan line ((rid, rdata) # rest) =
     (if short_name rdata = line \<and> rtype rdata = ''0'' then Some rid
      else find_route_scan line rest)"

definition find_route_id :: "string \<Rightarrow> route_data dict \<Rightarrow> string option" where
  "find_route_id line routes =
     (let tram_id = ''T'' @ line in
      if tram_id \<in> set (map fst routes) then Some tram_id
      else find_route_scan line routes)"

text \<open>
  The loop of \<^verbatim>\<open>find_trips\<close> over the rows of trips.txt, with the dictionary
  \<^verbatim>\<open>trips\<close> built so far; the \<^verbatim>\<open>break\<close> ends the scan.
\<close>

fun find_trips_loop :: "string \<Rightarrow> string \<Rightarrow> nat \<Rightarrow> trips_row list \<Rightarrow> string dict \<Rightarrow> string dict" where
  "find_trips_loop rid service_pattern limit [] trips = trips"
| "find_trips_loop rid service_pattern limit (row # rows) trips =
     (if t_route_id row = rid \<and> str_in service_pattern (t_service_id row) then
        (let headsign = (case t_trip_headsign row of None \<Rightarrow> ''Unknown'' | Some h \<Rightarrow> h);
             trips' = AList.update (t_trip_id row) headsign trips
         in if length trips' \<ge> limit then trips'
            else find_trips_loop rid service_pattern limit rows trips')
      else find_trips_loop rid service_pattern limit rows trips)"

definition find_trips :: "trips_row list \<Rightarrow> string \<Rightarrow> string \<Rightarrow> nat \<Rightarrow> string dict" where
  "find_trips rows rid service_pattern limit = find_trips_loop rid service_pattern limit rows []"

definition find_stops_by_name :: "(string \<Rightarrow> string) \<Rightarrow> string \<Rightarrow> stop_data dict \<Rightarrow> string list" where
  "find_stops_by_name lower nm stops =
     (let name_lower = lower nm in
      map fst (filter (\<lambda>(sid, sdata). str_in name_lower (lower (name sdata))) stops))"

subsection \<open>Aggregation of the stop times\<close>

text \<open>\<^verbatim>\<open>d[k].append(v)\<close> on a \<^verbatim>\<open>defaultdict(list)\<close>.\<close>

definition dd_append :: "'v list dict \<Rightarrow> string \<Rightarrow> 'v \<Rightarrow> 'v list dict" where
  "dd_append d k v =
     AList.update k ((case map_of d k of None \<Rightarrow> [] | Some vs \<Rightarrow> vs) @ [v]) d"

text \<open>
  The scan of stop\_times.txt in \<^verbatim>\<open>get_stop_times\<close>. The argument
  \<open>stop_ids\<close> is \<open>None\<close> for Python's \<^verbatim>\<open>None\<close> and \<open>Some ids\<close> for a list.
\<close>

fun scan_stop_times ::
  "string dict \<Rightarrow> string list option \<Rightarrow> stop_times_row list
    \<Rightarrow> (string \<times> string) list dict \<Rightarrow> (string \<times> string) list dict" where
  "scan_stop_times trip_info stop_ids [] times_by_stop = times_by_stop"
| "scan_stop_times trip_info stop_ids (row # rows) times_by_stop =
     (case map_of trip_info (st_trip_id row) of
        None \<Rightarrow> scan_stop_times trip_info stop_ids rows times_by_stop
      | Some headsign \<Rightarrow>
          if (case stop_ids of None \<Rightarrow> True | Some ids \<Rightarrow> st_stop_id row \<in> set ids)
          then scan_stop_times trip_info stop_ids rows
                 (dd_append times_by_stop (st_stop_id row) (st_departure_time row, headsign))
          else scan_stop_times trip_info stop_ids rows times_by_stop)"

text \<open>
  \<^verbatim>\<open>sorted(set(times_list), key=lambda x: x[0])\<close>: Python does not fix the order
  in which a set is iterated, so the conversion to a set is the parameter \<open>set_iter\<close>,
  any function that lists the distinct elements of its argument (\<open>set_order\<close>);
  \<^verbatim>\<open>sorted\<close> is stable, as \<^const>\<open>sort_key\<close> is.
\<close>

definition set_order :: "('a list \<Rightarrow> 'a list) \<Rightarrow> bool" where
  "set_order set_iter = (\<forall>xs. distinct (set_iter xs) \<and> set (set_iter xs) = set xs)"

definition get_stop_times ::
  "((string \<times> string) list \<Rightarrow> (string \<times> string) list) \<Rightarrow> stop_times_row list
    \<Rightarrow> string dict \<Rightarrow> string list option \<Rightarrow> (string \<times> string) list dict" where
  "get_stop_times set_iter rows trip_info stop_ids =
     map (\<lambda>(sid, times_list). (sid, sort_key fst (set_iter times_list)))
       (scan_stop_times trip_info stop_ids rows [])"

subsection \<open>The report\<close>

text \<open>The grouping by direction in \<^verbatim>\<open>format_output\<close>.\<close>

fun group_by_direction :: "(string \<times> string) list \<Rightarrow> string list dict \<Rightarrow> string list dict" where
  "group_by_direction [] by_direction = by_direction"
| "group_by_direction ((time, headsign) # rest) by_direction =
     group_by_direction rest (dd_append by_direction headsign time)"

text \<open>The rows of six times.\<close>

function time_rows :: "string list \<Rightarrow> string list" where
  "time_rows tms =
     (if tms = [] then []
      else (''    '' @ join ''  '' (take 6 tms)) # time_rows (drop 6 tms))"
  by pat_completeness auto
termination
  by (relation "measure length") auto

definition direction_block :: "string list dict \<Rightarrow> string \<Rightarrow> string list" where
  "direction_block by_direction direction =
     (let tms = (case map_of by_direction direction of None \<Rightarrow> [] | Some ts \<Rightarrow> ts) in
      [''  Direction: '' @ direction,
       ''  ('' @ str_nat (length tms) @ '' departures)'',
       []] @ time_rows tms @ [[]])"

definition stop_block :: "stop_data dict \<Rightarrow> (string \<times> string) list dict \<Rightarrow> string \<Rightarrow> string list" where
  "stop_block stops stop_times sid =
     (let times_with_direction = (case map_of stop_times sid of None \<Rightarrow> [] | Some ts \<Rightarrow> ts);
          stop_display = (case map_of stops sid of None \<Rightarrow> sid | Some info \<Rightarrow> name info);
          by_direction = group_by_direction times_with_direction []
      in [''Stop: '' @ stop_display @ '' ('' @ sid @ '')'',
          ''Departures: '' @ str_nat (length times_with_direction) @ '' scheduled'',
          []] @ concat (map (direction_block by_direction) (sort (map fst by_direction))))"

text \<open>
  \<^verbatim>\<open>format_output\<close>; \<open>queried_at\<close> is the formatted current time that the
  function reads from the clock.
\<close>

definition format_output ::
  "string \<Rightarrow> string \<Rightarrow> string \<Rightarrow> string \<Rightarrow> string \<Rightarrow> string dict
    \<Rightarrow> (string \<times> string) list dict \<Rightarrow> stop_data dict \<Rightarrow> string list \<Rightarrow> string" where
  "format_output queried_at line stop_nm schedule_type rid trips stop_times stops matching_stops =
     join [CHR 0x0A]
      ([''=== ATM Tram Schedule (GTFS) ==='',
        ''Line: '' @ line,
        ''Stop: '' @ (if stop_nm \<noteq> [] then stop_nm else ''all stops''),
        ''Schedule Type: '' @ schedule_type,
        ''Queried At: '' @ queried_at,
        ''Data Source: GTFS Static Feed'',
        [],
        ''Route ID: '' @ rid,
        [],
        ''=== Trips for '' @ schedule_type @ '' ==='',
        ''Found '' @ str_nat (length trips) @ '' trips'',
        []]
       @ (if stop_nm \<noteq> [] \<and> matching_stops \<noteq> [] then
            [''=== Stops matching '' @ [CHR 0x27] @ stop_nm @ [CHR 0x27] @ '' ==='',
             ''Found '' @ str_nat (length matching_stops) @ '' matching stops:'']
            @ map (\<lambda>sid. ''  '' @ sid @ '': '' @
                     (case map_of stops sid of None \<Rightarrow> ''Unknown'' | Some info \<Rightarrow> name info))
                matching_stops
            @ [[]]
          else [])
       @ [''=== Departure Times ==='', []]
       @ (if stop_times = [] then [''No departure times found.'']
          else concat (map (stop_block stops stop_times) (sort (map fst stop_times))))
       @ [''=== Note ==='',
          ''This data is from GTFS static feed (scheduled times, not real-time).'',
          ''Times shown are in HH:MM:SS format.'',
          ''For real-time data, the ATM API is currently unavailable due to access restrictions.''])"

subsection \<open>The outside world\<close>

text \<open>
  The program talks to the state store (the command \<^verbatim>\<open>ambrogioctl\<close>), to the file
  system, to the network (\<^verbatim>\<open>curl\<close>) and to the clock. Every such call is an
  \<open>event\<close> of the run, in the order of the calls; what a call answers is read from a
  \<open>world\<close>, which also holds the library functions the code calls. The answers of a
  world do not change during a run: every test for existence in the code comes before the
  first file that the run creates, and the clock is read as one instant. Creating a
  directory, starting \<^verbatim>\<open>curl\<close> and writing the report are taken to succeed.
\<close>

datatype event =
    Log string                \<comment> \<open>a line on the error stream\<close>
  | Print string              \<comment> \<open>a line on the standard output\<close>
  | StateGet string           \<comment> \<open>\<^verbatim>\<open>ambrogioctl state get key\<close>\<close>
  | StateSet string string    \<comment> \<open>\<^verbatim>\<open>ambrogioctl state set key value\<close>\<close>
  | Exists string             \<comment> \<open>\<^verbatim>\<open>Path(p).exists()\<close>\<close>
  | Mkdir string              \<comment> \<open>\<^verbatim>\<open>p.mkdir(parents=True, exist_ok=True)\<close>\<close>
  | Fetch string string       \<comment> \<open>\<^verbatim>\<open>curl -sL url -o dest\<close>\<close>
  | Extract string string     \<comment> \<open>\<^verbatim>\<open>ZipFile(archive).extractall(dir)\<close>\<close>
  | ReadTable string          \<comment> \<open>a table file opened and read\<close>
  | WriteFile string string   \<comment> \<open>a file opened for writing, and its new content\<close>

text \<open>What \<^verbatim>\<open>subprocess.run\<close> gives: an exception, or a return code and the output.\<close>

datatype proc = Raised | Completed int string

text \<open>
  A value that \<^verbatim>\<open>json.loads\<close> returns; an object is the dictionary that Python
  builds, in which a key occurs once.
\<close>

datatype json =
    JNull
  | JBool bool
  | JInt int
  | JReal real
  | JStr string
  | JArr "json list"
  | JObj "(string \<times> json) list"

text \<open>
  A \<^verbatim>\<open>datetime\<close>: its \<^verbatim>\<open>tzinfo\<close> (none for a naive one, else the offset) and
  its position on the time line in microseconds, the resolution of the type.
\<close>

record datetime =
  tzinfo :: "int option"
  us :: int

datatype exn = JSONDecodeError | KeyError | TypeError | AttributeError | ValueError | OSError

record world =
  ctl_get :: "string \<Rightarrow> proc"
    \<comment> \<open>\<^verbatim>\<open>subprocess.run(["ambrogioctl", "state", "get", key], ...)\<close>\<close>
  path_exists :: "string \<Rightarrow> bool"
  json_loads :: "string \<Rightarrow> json option"
    \<comment> \<open>\<open>None\<close>: \<^verbatim>\<open>json.loads\<close> raises\<close>
  json_dumps :: "json \<Rightarrow> string"
  fromisoformat :: "string \<Rightarrow> datetime option"
    \<comment> \<open>\<open>None\<close>: \<^verbatim>\<open>datetime.fromisoformat\<close> raises\<close>
  now :: "int option \<Rightarrow> datetime"
    \<comment> \<open>\<^verbatim>\<open>datetime.now(tz)\<close>\<close>
  utcnow_iso :: string
    \<comment> \<open>\<^verbatim>\<open>datetime.utcnow().strftime("%Y-%m-%dT%H:%M:%SZ")\<close>\<close>
  now_date_path :: string
    \<comment> \<open>\<^verbatim>\<open>datetime.now().strftime("%Y/%m/%d")\<close>\<close>
  now_ts :: string
    \<comment> \<open>\<^verbatim>\<open>datetime.now().strftime("%Y%m%d-%H%M%S")\<close>\<close>
  sha256_hex :: "string \<Rightarrow> string"
    \<comment> \<open>\<^verbatim>\<open>hashlib.sha256(s.encode()).hexdigest()\<close>\<close>
  str_lower :: "string \<Rightarrow> string"
    \<comment> \<open>\<^verbatim>\<open>s.lower()\<close>\<close>
  set_iter :: "(string \<times> string) list \<Rightarrow> (string \<times> string) list"
    \<comment> \<open>the elements of \<^verbatim>\<open>set(xs)\<close> in the order of iteration\<close>
  curl_returncode :: int
  extract_error :: "string option"
    \<comment> \<open>\<open>Some e\<close>: the extraction raises \<open>e\<close>\<close>
  routes_txt :: "routes_row list option"
    \<comment> \<open>the tables as the query reads them; \<open>None\<close>: reading raises\<close>
  stops_txt :: "stops_row list option"
  trips_txt :: "trips_row list option"
  stop_times_txt :: "stop_times_row list option"

subsection \<open>The state store\<close>

text \<open>
  \<^verbatim>\<open>str.strip()\<close> removes the characters for which \<^verbatim>\<open>str.isspace\<close> holds;
  among the code points below 256 these are the twelve of \<open>is_space\<close>.
\<close>

definition is_space :: "char \<Rightarrow> bool" where
  "is_space c = (c \<in> set [CHR 0x09, CHR 0x0A, CHR 0x0B, CHR 0x0C, CHR 0x0D,
                            CHR 0x1C, CHR 0x1D, CHR 0x1E, CHR 0x1F, CHR 0x20,
                            CHR 0x85, CHR 0xA0])"

definition strip :: "string \<Rightarrow> string" where
  "strip s = rev (dropWhile is_space (rev (dropWhile is_space s)))"

text \<open>\<^verbatim>\<open>s.split("=", 1)[1]\<close>, for an \<open>s\<close> with an equals sign.\<close>

definition after_equals :: "string \<Rightarrow> string" where
  "after_equals s = tl (dropWhile (\<lambda>c. c \<noteq> CHR ''='') s)"

definition get_cache_state :: "world \<Rightarrow> string \<Rightarrow> string option \<times> event list" where
  "get_cache_state w key =
     (case ctl_get w key of
        Raised \<Rightarrow> (None, [StateGet key])
      | Completed returncode stdout \<Rightarrow>
          if returncode = 0 then
            (if CHR ''='' \<in> set stdout then Some (after_equals (strip stdout)) else None,
             [StateGet key])
          else (None, [StateGet key]))"

definition set_cache_state :: "string \<Rightarrow> string \<Rightarrow> event list" where
  "set_cache_state key val = [StateSet key val]"

subsection \<open>The query cache\<close>

text \<open>Python's truth value of a JSON value.\<close>

fun truthy :: "json \<Rightarrow> bool" where
  "truthy JNull = False"
| "truthy (JBool b) = b"
| "truthy (JInt i) = (i \<noteq> 0)"
| "truthy (JReal x) = (x \<noteq> 0)"
| "truthy (JStr s) = (s \<noteq> [])"
| "truthy (JArr xs) = (xs \<noteq> [])"
| "truthy (JObj kvs) = (kvs \<noteq> [])"

text \<open>\<^verbatim>\<open>d[k]\<close> for a string \<open>k\<close>, and \<^verbatim>\<open>d.get(k)\<close> on a dictionary.\<close>

fun subscript :: "json \<Rightarrow> string \<Rightarrow> exn + json" where
  "subscript (JObj kvs) k = (case map_of kvs k of None \<Rightarrow> Inl KeyError | Some v \<Rightarrow> Inr v)"
| "subscript d k = Inl TypeError"

fun dict_get :: "json \<Rightarrow> string \<Rightarrow> exn + json" where
  "dict_get (JObj kvs) k = (case map_of kvs k of None \<Rightarrow> Inr JNull | Some v \<Rightarrow> Inr v)"
| "dict_get d k = Inl AttributeError"

text \<open>
  \<^verbatim>\<open>(datetime.now(ts.tzinfo) - ts).total_seconds() < ttl\<close>. The difference is a
  whole number of microseconds and \<open>ttl\<close> a whole number of seconds.
\<close>

definition younger_than :: "world \<Rightarrow> datetime \<Rightarrow> int \<Rightarrow> bool" where
  "younger_than w ts ttl = (us (now w (tzinfo ts)) - us ts < ttl * 1000000)"

text \<open>
  The body of the \<^verbatim>\<open>try\<close> of \<^verbatim>\<open>check_cache\<close>: what it returns (\<open>None\<close> when
  it falls through to the end of the function) or the exception it raises, and its events.
\<close>

definition check_cache_try :: "world \<Rightarrow> string \<Rightarrow> int \<Rightarrow> (exn + json option) \<times> event list" where
  "check_cache_try w cache_entry ttl =
     (case json_loads w cache_entry of
        None \<Rightarrow> (Inl JSONDecodeError, [])
      | Some cache_data \<Rightarrow>
         (case subscript cache_data ''timestamp'' of
            Inl e \<Rightarrow> (Inl e, [])
          | Inr (JStr s) \<Rightarrow>
             (case fromisoformat w (replace_char (CHR ''Z'') ''+00:00'' s) of
                None \<Rightarrow> (Inl ValueError, [])
              | Some timestamp \<Rightarrow>
                 if younger_than w timestamp ttl then
                   (case dict_get cache_data ''text_path'' of
                      Inl e \<Rightarrow> (Inl e, [])
                    | Inr text_path \<Rightarrow>
                       if truthy text_path then
                         (case text_path of
                            JStr p \<Rightarrow>
                              (if path_exists w p then Inr (Some cache_data) else Inr None,
                               [Exists p])
                          | _ \<Rightarrow> (Inl TypeError, []))
                       else (Inr None, []))
                 else (Inr None, []))
          | Inr _ \<Rightarrow> (Inl AttributeError, [])))"

text \<open>
  \<^verbatim>\<open>check_cache\<close>: \<open>Inr (Some d)\<close> is a hit, \<open>Inr None\<close> a miss, and \<open>Inl e\<close>
  would be an exception that leaves the function.
\<close>

definition check_cache :: "world \<Rightarrow> string \<Rightarrow> int \<Rightarrow> (exn + json option) \<times> event list" where
  "check_cache w cache_key ttl =
     (let (cache_entry, ev) = get_cache_state w cache_key in
      case cache_entry of
        None \<Rightarrow> (Inr None, ev)
      | Some entry \<Rightarrow>
          if entry = [] then (Inr None, ev)
          else (case check_cache_try w entry ttl of
                  (Inl e, ev') \<Rightarrow> (Inr None, ev @ ev')
                | (Inr r, ev') \<Rightarrow> (Inr r, ev @ ev')))"

subsection \<open>The dataset\<close>

definition gtfs_cache_key :: string where
  "gtfs_cache_key = ''atm-tram-schedule:gtfs:timestamp''"

text \<open>The test of \<^verbatim>\<open>download_gtfs\<close> that ends in \<^verbatim>\<open>return True\<close>.\<close>

definition cache_valid :: "world \<Rightarrow> bool \<Rightarrow> string option \<Rightarrow> bool" where
  "cache_valid w all_files_exist gtfs_timestamp =
     (all_files_exist \<and>
      (case gtfs_timestamp of
         None \<Rightarrow> False
       | Some t \<Rightarrow>
           t \<noteq> [] \<and>
           (case fromisoformat w (replace_char (CHR ''Z'') ''+00:00'' t) of
              None \<Rightarrow> False
            | Some ts \<Rightarrow> younger_than w ts GTFS_CACHE_TTL)))"

text \<open>The extraction and what follows it.\<close>

definition extract_gtfs :: "world \<Rightarrow> bool \<times> event list" where
  "extract_gtfs w =
     (case extract_error w of
        Some e \<Rightarrow>
          (False, [Log ''Extracting GTFS data...'', Extract GTFS_ZIP GTFS_DIR,
                   Log (''Error extracting GTFS: '' @ e)])
      | None \<Rightarrow>
          (True, [Log ''Extracting GTFS data...'', Extract GTFS_ZIP GTFS_DIR]
                 @ set_cache_state gtfs_cache_key (utcnow_iso w)))"

definition download_gtfs :: "world \<Rightarrow> bool \<times> event list" where
  "download_gtfs w =
     (let routes_file = GTFS_DIR @ ''/routes.txt'';
          stops_file = GTFS_DIR @ ''/stops.txt'';
          trips_file = GTFS_DIR @ ''/trips.txt'';
          stop_times_file = GTFS_DIR @ ''/stop_times.txt'';
          all_files_exist = (path_exists w routes_file \<and> path_exists w stops_file
                             \<and> path_exists w trips_file \<and> path_exists w stop_times_file);
          ev0 = [Exists routes_file, Exists stops_file, Exists trips_file,
                 Exists stop_times_file];
          (gtfs_timestamp, ev1) = get_cache_state w gtfs_cache_key
      in if cache_valid w all_files_exist gtfs_timestamp then (True, ev0 @ ev1)
         else
           (let ev2 = ev0 @ ev1 @ [Log ''Downloading GTFS data from ATM Milano...'',
                                    Mkdir GTFS_DIR, Exists GTFS_ZIP]
            in if \<not> path_exists w GTFS_ZIP then
                 (if curl_returncode w \<noteq> 0 then
                    (False, ev2 @ [Fetch GTFS_URL GTFS_ZIP,
                                   Log ''Error: Failed to download GTFS data''])
                  else (let (ok, ev3) = extract_gtfs w
                        in (ok, ev2 @ [Fetch GTFS_URL GTFS_ZIP] @ ev3)))
               else (let (ok, ev3) = extract_gtfs w in (ok, ev2 @ ev3))))"

text \<open>The four tables whose presence \<^verbatim>\<open>download_gtfs\<close> checks, in the order of the checks.\<close>

definition table_files :: "string list" where
  "table_files = [GTFS_DIR @ ''/routes.txt'', GTFS_DIR @ ''/stops.txt'',
                  GTFS_DIR @ ''/trips.txt'', GTFS_DIR @ ''/stop_times.txt'']"

subsection \<open>The program\<close>

text \<open>
  How a run ends: \<^verbatim>\<open>sys.exit(n)\<close>, or the end of \<^verbatim>\<open>main\<close>, which is exit
  code 0, or an exception that nothing catches.
\<close>

datatype outcome = Exit int | Uncaught exn

definition usage :: "string list" where
  "usage =
     [''Usage: check-tram-schedule.py <line-number> [stop-name] [schedule-type]'',
      ''  line-number:    Tram line number (e.g., 9, 12, 16)'',
      ''  stop-name:      Stop name (optional, shows all stops if omitted)'',
      ''  schedule-type:  weekday (default), saturday, sunday'']"

text \<open>The lines that both ends of \<^verbatim>\<open>main\<close> print.\<close>

definition result_lines :: "string \<Rightarrow> string \<Rightarrow> string \<Rightarrow> string \<Rightarrow> string \<Rightarrow> event list" where
  "result_lines line stop_nm schedule_type text_path cache =
     [Print (''LINE: '' @ line),
      Print (''STOP: '' @ (if stop_nm \<noteq> [] then stop_nm else ''all'')),
      Print (''TYPE: '' @ schedule_type),
      Print (''TEXT: '' @ text_path),
      Print ''SOURCE: GTFS'',
      Print (''CACHE: '' @ cache)]"

text \<open>The remediation of \<^verbatim>\<open>main\<close> when no route is found.\<close>

definition route_listing :: "route_data dict \<Rightarrow> event list" where
  "route_listing routes =
     map (\<lambda>(rid, rdata). Log (''  '' @ short_name rdata @ '': '' @ long_name rdata))
       (filter (\<lambda>(rid, rdata). rtype rdata = ''0'') (sort_key fst routes))"

definition route_not_found :: "string \<Rightarrow> route_data dict \<Rightarrow> event list" where
  "route_not_found line routes =
     [Log (''Error: Line '' @ line @ '' not found in GTFS data''),
      Log ([CHR 0x0A] @ ''Available tram lines (route_type=0):'')]
     @ route_listing routes"

text \<open>The message of \<^verbatim>\<open>get_stop_times\<close> before it opens the table.\<close>

definition scanning_log :: "string dict \<Rightarrow> event list" where
  "scanning_log trip_info =
     (if length trip_info > 10 then
        [Log (''Scanning stop_times.txt for '' @ str_nat (length trip_info) @ '' trips...'')]
      else [])"

text \<open>
  \<^verbatim>\<open>main\<close> from the stop filter to its end: the stop times, the report, the cache
  entry, the output. \<open>matching_stops\<close> is \<open>None\<close> for Python's \<^verbatim>\<open>None\<close>; the
  path of the report is the concatenation of its parts.
\<close>

definition write_report ::
  "world \<Rightarrow> string \<Rightarrow> string \<Rightarrow> string \<Rightarrow> string \<Rightarrow> string \<Rightarrow> string dict \<Rightarrow> stop_data dict
    \<Rightarrow> outcome \<times> event list" where
  "write_report w line stop_nm schedule_type cache_key rid trips stops =
     (let matching_stops =
            (if stop_nm \<noteq> [] then Some (find_stops_by_name (str_lower w) stop_nm stops)
             else None);
          ev0 = (case matching_stops of
                   Some [] \<Rightarrow>
                     [Log (''Warning: No stops found matching '' @ [CHR 0x27] @ stop_nm @ [CHR 0x27]),
                      Log ''Showing all stops for this line instead'']
                 | _ \<Rightarrow> [])
                @ scanning_log trips @ [ReadTable (GTFS_DIR @ ''/stop_times.txt'')]
      in case stop_times_txt w of
           None \<Rightarrow> (Uncaught OSError, ev0)
         | Some rows \<Rightarrow>
            (let stop_times = get_stop_times (set_iter w) rows trips matching_stops;
                 out_dir = DATA_DIR @ ''/'' @ now_date_path w;
                 text_path = out_dir @ ''/'' @ now_ts w @ ''-''
                             @ slug (str_lower w) line stop_nm @ ''.txt'';
                 output = format_output (utcnow_iso w) line stop_nm schedule_type rid trips
                            stop_times stops
                            (case matching_stops of None \<Rightarrow> [] | Some ids \<Rightarrow> ids);
                 cache_value = json_dumps w (JObj
                   [(''timestamp'', JStr (utcnow_iso w)), (''line'', JStr line),
                    (''stop'', JStr stop_nm), (''schedule_type'', JStr schedule_type),
                    (''text_path'', JStr text_path)])
             in (Exit 0,
                 ev0 @ [Mkdir out_dir, WriteFile text_path output]
                 @ set_cache_state cache_key cache_value
                 @ result_lines line stop_nm schedule_type text_path ''miss'')))"

text \<open>\<^verbatim>\<open>main\<close> from the loading of the tables to the selection of the trips.\<close>

definition run_query ::
  "world \<Rightarrow> string \<Rightarrow> string \<Rightarrow> string \<Rightarrow> string \<Rightarrow> string \<Rightarrow> outcome \<times> event list" where
  "run_query w line stop_nm schedule_type service_pattern cache_key =
     (let ev0 = [Log (''Querying GTFS data for line '' @ line @ ''...''),
                 ReadTable (GTFS_DIR @ ''/routes.txt'')]
      in case routes_txt w of
           None \<Rightarrow> (Uncaught OSError, ev0)
         | Some r_rows \<Rightarrow>
            (let routes = load_routes r_rows;
                 ev1 = ev0 @ [ReadTable (GTFS_DIR @ ''/stops.txt'')]
             in case stops_txt w of
                  None \<Rightarrow> (Uncaught OSError, ev1)
                | Some s_rows \<Rightarrow>
                   (let stops = load_stops s_rows in
                    case find_route_id line routes of
                      None \<Rightarrow> (Exit 1, ev1 @ route_not_found line routes)
                    | Some rid \<Rightarrow>
                       if rid = [] then (Exit 1, ev1 @ route_not_found line routes)
                       else
                         (let ev2 = ev1 @ [ReadTable (GTFS_DIR @ ''/trips.txt'')]
                          in case trips_txt w of
                               None \<Rightarrow> (Uncaught OSError, ev2)
                             | Some t_rows \<Rightarrow>
                                (let trips = find_trips t_rows rid service_pattern 50 in
                                 if trips = [] then
                                   (Exit 1,
                                    ev2 @ [Log (''No trips found for line '' @ line @ '' on ''
                                                @ schedule_type)])
                                 else
                                   (let (out, ev3) =
                                          write_report w line stop_nm schedule_type cache_key
                                            rid trips stops
                                    in (out, ev2 @ ev3)))))))"

text \<open>
  The three arguments; \<open>argv\<close> is \<^verbatim>\<open>sys.argv\<close>, the name of the script first.
  \<^verbatim>\<open>main\<close> reads them once it knows that \<open>argv\<close> has two to four elements.
\<close>

definition arg_line :: "string list \<Rightarrow> string" where
  "arg_line argv = argv ! 1"

definition arg_stop_name :: "string list \<Rightarrow> string" where
  "arg_stop_name argv = (if length argv > 2 then argv ! 2 else [])"

definition arg_schedule_type :: "string list \<Rightarrow> string" where
  "arg_schedule_type argv = (if length argv > 3 then argv ! 3 else ''weekday'')"

text \<open>
  \<^verbatim>\<open>main\<close>. On a hit, \<^verbatim>\<open>cached['text_path']\<close> is a string (lemma
  \<open>check_cache_try_hit\<close> below).
\<close>

definition main :: "world \<Rightarrow> string list \<Rightarrow> outcome \<times> event list" where
  "main w argv =
     (if length argv < 2 \<or> length argv > 4 then (Exit 1, map Log usage)
      else
        (let line = arg_line argv;
             stop_nm = arg_stop_name argv;
             schedule_type = arg_schedule_type argv
         in case map_of SERVICE_PATTERNS schedule_type of
              None \<Rightarrow>
                (Exit 1,
                 [Log (''Error: schedule-type must be one of: ''
                       @ join '', '' (map fst SERVICE_PATTERNS))])
            | Some service_pattern \<Rightarrow>
               (let cache_key = cache_key_of (sha256_hex w) line stop_nm schedule_type;
                    (cached, ev0) = check_cache w cache_key SCHEDULE_CACHE_TTL
                in case cached of
                     Inl e \<Rightarrow> (Uncaught e, ev0)
                   | Inr c \<Rightarrow>
                      (case (case c of None \<Rightarrow> None
                             | Some d \<Rightarrow> if truthy d then Some d else None) of
                         Some d \<Rightarrow>
                           (Exit 0,
                            ev0 @ result_lines line stop_nm schedule_type
                                    (case subscript d ''text_path'' of
                                       Inr (JStr p) \<Rightarrow> p | _ \<Rightarrow> [])
                                    ''hit'')
                       | None \<Rightarrow>
                          (let (ok, ev1) = download_gtfs w in
                           if \<not> ok then (Exit 1, ev0 @ ev1)
                           else
                             (let (out, ev2) =
                                    run_query w line stop_nm schedule_type service_pattern
                                      cache_key
                              in (out, ev0 @ ev1 @ ev2)))))))"

subsection \<open>Example data\<close>

text \<open>
  A small dataset and a few worlds, for concrete runs. In these worlds the clock stands at
  2026-01-15 10:00:00 UTC, the library functions are tables that cover the strings of the
  examples, the digest is the identity and a set is iterated in the order of
  \<^const>\<open>remdups\<close>.
\<close>

text \<open>
  The lowercasing of these worlds is \<^verbatim>\<open>str.lower()\<close> on the strings of code points
  below 256: it moves the letters A to Z and the thirty upper-case letters from U+00C0 to
  U+00DE (the sign U+00D7 is none) up by 32 and leaves every other code point as it is.
\<close>

definition example_lower :: "string \<Rightarrow> string" where
  "example_lower s =
     map (\<lambda>c. case map_of (zip
            (''ABCDEFGHIJKLMNOPQRSTUVWXYZ'' @
             [CHR 0xC0, CHR 0xC1, CHR 0xC2, CHR 0xC3, CHR 0xC4, CHR 0xC5, CHR 0xC6, CHR 0xC7,
              CHR 0xC8, CHR 0xC9, CHR 0xCA, CHR 0xCB, CHR 0xCC, CHR 0xCD, CHR 0xCE, CHR 0xCF,
              CHR 0xD0, CHR 0xD1, CHR 0xD2, CHR 0xD3, CHR 0xD4, CHR 0xD5, CHR 0xD6, CHR 0xD8,
              CHR 0xD9, CHR 0xDA, CHR 0xDB, CHR 0xDC, CHR 0xDD, CHR 0xDE])
            (''abcdefghijklmnopqrstuvwxyz'' @
             [CHR 0xE0, CHR 0xE1, CHR 0xE2, CHR 0xE3, CHR 0xE4, CHR 0xE5, CHR 0xE6, CHR 0xE7,
              CHR 0xE8, CHR 0xE9, CHR 0xEA, CHR 0xEB, CHR 0xEC, CHR 0xED, CHR 0xEE, CHR 0xEF,
              CHR 0xF0, CHR 0xF1, CHR 0xF2, CHR 0xF3, CHR 0xF4, CHR 0xF5, CHR 0xF6, CHR 0xF8,
              CHR 0xF9, CHR 0xFA, CHR 0xFB, CHR 0xFC, CHR 0xFD, CHR 0xFE])) c of
          Some d \<Rightarrow> d
        | None \<Rightarrow> c) s"

definition example_routes :: "routes_row list" where
  "example_routes =
     [\<lparr>r_route_id = ''T9'', r_route_short_name = ''9'',
       r_route_long_name = ''Centrale FS - Porta Genova'', r_route_type = ''0''\<rparr>,
      \<lparr>r_route_id = ''M1'', r_route_short_name = ''1'',
       r_route_long_name = ''Sesto FS - Rho Fiera'', r_route_type = ''1''\<rparr>,
      \<lparr>r_route_id = ''B15'', r_route_short_name = ''15'',
       r_route_long_name = ''Duomo - Rozzano'', r_route_type = ''3''\<rparr>,
      \<lparr>r_route_id = ''X15'', r_route_short_name = ''15'',
       r_route_long_name = ''Duomo - Rozzano'', r_route_type = ''0''\<rparr>]"

definition example_stops :: "stops_row list" where
  "example_stops =
     [\<lparr>s_stop_id = ''S2'', s_stop_name = ''Porta Genova'',
       s_stop_lat = Some ''45.45'', s_stop_lon = Some ''9.17''\<rparr>,
      \<lparr>s_stop_id = ''S1'', s_stop_name = ''Centrale FS'',
       s_stop_lat = Some ''45.48'', s_stop_lon = Some ''9.20''\<rparr>]"

definition example_trips :: "trips_row list" where
  "example_trips =
     [\<lparr>t_route_id = ''T9'', t_service_id = ''A LV 1'', t_trip_id = ''t1'',
       t_trip_headsign = Some ''Porta Genova''\<rparr>,
      \<lparr>t_route_id = ''T9'', t_service_id = ''A SAB 1'', t_trip_id = ''t2'',
       t_trip_headsign = Some ''Porta Genova''\<rparr>,
      \<lparr>t_route_id = ''M1'', t_service_id = ''A LV 1'', t_trip_id = ''t3'',
       t_trip_headsign = Some ''Rho Fiera''\<rparr>,
      \<lparr>t_route_id = ''T9'', t_service_id = ''B LV 2'', t_trip_id = ''t4'',
       t_trip_headsign = Some ''Centrale FS''\<rparr>]"

definition example_stop_times :: "stop_times_row list" where
  "example_stop_times =
     [\<lparr>st_trip_id = ''t1'', st_stop_id = ''S1'', st_departure_time = ''08:00:00''\<rparr>,
      \<lparr>st_trip_id = ''t1'', st_stop_id = ''S2'', st_departure_time = ''08:20:00''\<rparr>,
      \<lparr>st_trip_id = ''t4'', st_stop_id = ''S2'', st_departure_time = ''07:30:00''\<rparr>,
      \<lparr>st_trip_id = ''t3'', st_stop_id = ''S1'', st_departure_time = ''07:00:00''\<rparr>,
      \<lparr>st_trip_id = ''t4'', st_stop_id = ''S1'', st_departure_time = ''07:50:00''\<rparr>,
      \<lparr>st_trip_id = ''t1'', st_stop_id = ''S1'', st_departure_time = ''08:00:00''\<rparr>,
      \<lparr>st_trip_id = ''t1'', st_stop_id = ''S1'', st_departure_time = ''07:10:00''\<rparr>]"

definition example_entry :: json where
  "example_entry =
     JObj [(''timestamp'', JStr ''2026-01-15T09:30:00Z''), (''line'', JStr ''9''),
           (''stop'', JStr ''''), (''schedule_type'', JStr ''weekday''),
           (''text_path'',
            JStr ''/data/generated/atm-tram-schedule/2026/01/15/20260115-103000-line9-all.txt'')]"

text \<open>
  The state store cannot be reached and the data directory is empty: the dataset is
  fetched and extracted.
\<close>

definition example_world :: world where
  "example_world =
     \<lparr>ctl_get = (\<lambda>key. Raised),
      path_exists = (\<lambda>p. False),
      json_loads = (\<lambda>s. if s = ''{entry}'' then Some example_entry else None),
      json_dumps = (\<lambda>j. ''{entry}''),
      fromisoformat =
        map_of [(''2026-01-15T09:30:00+00:00'', \<lparr>tzinfo = Some 0, us = 1768469400000000\<rparr>),
                (''2026-01-13T10:00:00+00:00'', \<lparr>tzinfo = Some 0, us = 1768298400000000\<rparr>)],
      now = (\<lambda>tz. \<lparr>tzinfo = tz, us = 1768471200000000\<rparr>),
      utcnow_iso = ''2026-01-15T10:00:00Z'',
      now_date_path = ''2026/01/15'',
      now_ts = ''20260115-110000'',
      sha256_hex = (\<lambda>s. s),
      str_lower = example_lower,
      set_iter = remdups,
      curl_returncode = 0,
      extract_error = None,
      routes_txt = Some example_routes,
      stops_txt = Some example_stops,
      trips_txt = Some example_trips,
      stop_times_txt = Some example_stop_times\<rparr>"

text \<open>The four tables are on disk and the store holds a timestamp half an hour old.\<close>

definition fresh_world :: world where
  "fresh_world =
     example_world
       \<lparr>ctl_get := (\<lambda>key. if key = gtfs_cache_key
                            then Completed 0 (gtfs_cache_key @ ''=2026-01-15T09:30:00Z'' @ [CHR 0x0A])
                            else Completed 1 []),
        path_exists := (\<lambda>p. p \<in> set [GTFS_DIR @ ''/routes.txt'', GTFS_DIR @ ''/stops.txt'',
                                         GTFS_DIR @ ''/trips.txt'', GTFS_DIR @ ''/stop_times.txt''])\<rparr>"

text \<open>
  Only the archive is on disk, and the store holds a timestamp two days old; in the second
  world the archive is not a zip file.
\<close>

definition stale_world :: world where
  "stale_world =
     example_world
       \<lparr>ctl_get := (\<lambda>key. if key = gtfs_cache_key
                            then Completed 0 (gtfs_cache_key @ ''=2026-01-13T10:00:00Z'' @ [CHR 0x0A])
                            else Completed 1 []),
        path_exists := (\<lambda>p. p = GTFS_ZIP)\<rparr>"

definition corrupt_world :: world where
  "corrupt_world = stale_world\<lparr>extract_error := Some ''File is not a zip file''\<rparr>"

text \<open>The store holds an entry for the query, half an hour old, and its report exists.\<close>

definition cached_world :: world where
  "cached_world =
     example_world
       \<lparr>ctl_get := (\<lambda>key. Completed 0 (key @ ''={entry}'' @ [CHR 0x0A])),
        path_exists := (\<lambda>p. p =
          ''/data/generated/atm-tram-schedule/2026/01/15/20260115-103000-line9-all.txt'')\<rparr>"

section \<open>Properties\<close>

subsection \<open>Strings\<close>

lemma replace_char_remove: "replace_char c [] s = filter (\<lambda>d. d \<noteq> c) s"
  by (induction s) (simp_all add: replace_char_def)

lemma starts_with_iff: "starts_with sub s \<longleftrightarrow> (\<exists>r. s = sub @ r)"
  by (induction sub s rule: starts_with.induct) auto

lemma str_in_iff: "str_in sub s \<longleftrightarrow> (\<exists>p r. s = p @ sub @ r)"
proof (induction s)
  case Nil
  then show ?case by simp
next
  case (Cons d ds)
  show ?case
  proof
    assume "str_in sub (d # ds)"
    then consider "starts_with sub (d # ds)" | "str_in sub ds" by auto
    then show "\<exists>p r. d # ds = p @ sub @ r"
    proof cases
      case 1
      then obtain r where "d # ds = sub @ r" by (auto simp: starts_with_iff)
      then have "d # ds = [] @ sub @ r" by simp
      then show ?thesis by blast
    next
      case 2
      then obtain p r where "ds = p @ sub @ r" using Cons.IH by blast
      then have "d # ds = (d # p) @ sub @ r" by simp
      then show ?thesis by blast
    qed
  next
    assume "\<exists>p r. d # ds = p @ sub @ r"
    then obtain p r where eq: "d # ds = p @ sub @ r" by blast
    show "str_in sub (d # ds)"
    proof (cases p)
      case Nil
      with eq have "starts_with sub (d # ds)" by (auto simp: starts_with_iff)
      then show ?thesis by simp
    next
      case (Cons e p')
      with eq have "ds = p' @ sub @ r" by simp
      then have "str_in sub ds" using Cons.IH by blast
      then show ?thesis by simp
    qed
  qed
qed

subsection \<open>The query fingerprint\<close>

lemma split_at_first:
  "c \<notin> set a \<Longrightarrow> c \<notin> set b \<Longrightarrow> a @ c # x = b @ c # y \<Longrightarrow> a = b \<and> x = y"
proof (induction a arbitrary: b)
  case Nil
  then show ?case by (cases b) auto
next
  case (Cons e a)
  then show ?case by (cases b) auto
qed

lemma split_at_last:
  assumes "c \<notin> set x" "c \<notin> set y" "a @ c # x = b @ c # y"
  shows "a = b \<and> x = y"
proof -
  from assms(3) have "rev (a @ c # x) = rev (b @ c # y)" by simp
  then have "rev x @ c # rev a = rev y @ c # rev b" by simp
  moreover have "c \<notin> set (rev x)" "c \<notin> set (rev y)" using assms by simp_all
  ultimately have "rev x = rev y \<and> rev a = rev b" by (rule split_at_first [rotated 2])
  then show ?thesis by simp
qed

lemma SERVICE_PATTERNS_no_colon:
  "t \<in> fst ` set SERVICE_PATTERNS \<Longrightarrow> CHR '':'' \<notin> set t"
  by (auto simp: SERVICE_PATTERNS_def)

lemma cache_hash_collides:
  "cache_hash sha256 ''9:a'' ''b'' ''weekday'' = cache_hash sha256 ''9'' ''a:b'' ''weekday''"
  by (simp add: cache_hash_def cache_input_def)

text \<open>
  Claim C2, as stated, fails: the string that is hashed joins the three fields with colons
  and escapes nothing, so the triples (9:a, b, weekday) and (9, a:b, weekday), which differ
  in two fields and both have a valid schedule type, are encoded as the same string
  \<^verbatim>\<open>9:a:b:weekday\<close> and so get the same fingerprint, whatever the hash function.
\<close>

theorem cache_input_not_injective:
  "cache_input ''9:a'' ''b'' ''weekday'' = cache_input ''9'' ''a:b'' ''weekday''
   \<and> ''weekday'' \<in> fst ` set SERVICE_PATTERNS
   \<and> (''9:a'', ''b'', ''weekday'') \<noteq> (''9'', ''a:b'', ''weekday'')"
  by (simp add: cache_input_def SERVICE_PATTERNS_def)

text \<open>
  Claim C2, amended: for triples with a valid schedule type whose line contains no colon,
  the string that is hashed is the same for two triples if and only if all three fields are
  identical; so identical triples have the same fingerprint, and two such triples that
  differ in some field have the same fingerprint only when the hash function maps two
  different strings to the same digest.
\<close>

theorem cache_input_injective:
  assumes "CHR '':'' \<notin> set line1" and "CHR '':'' \<notin> set line2"
    and "t1 \<in> fst ` set SERVICE_PATTERNS" and "t2 \<in> fst ` set SERVICE_PATTERNS"
  shows "(cache_input line1 stop1 t1 = cache_input line2 stop2 t2
            \<longleftrightarrow> line1 = line2 \<and> stop1 = stop2 \<and> t1 = t2)
       \<and> (cache_hash sha256 line1 stop1 t1 = cache_hash sha256 line2 stop2 t2
            \<longleftrightarrow> (line1 = line2 \<and> stop1 = stop2 \<and> t1 = t2)
              \<or> (cache_input line1 stop1 t1 \<noteq> cache_input line2 stop2 t2
                  \<and> sha256 (cache_input line1 stop1 t1) = sha256 (cache_input line2 stop2 t2)))"
proof -
  have inj: "line1 = line2 \<and> stop1 = stop2 \<and> t1 = t2"
    if eq: "cache_input line1 stop1 t1 = cache_input line2 stop2 t2"
  proof -
    from eq have "line1 @ CHR '':'' # (stop1 @ CHR '':'' # t1) = line2 @ CHR '':'' # (stop2 @ CHR '':'' # t2)"
      by (simp add: cache_input_def)
    from split_at_first [OF assms(1) assms(2) this]
    have l: "line1 = line2" and rest: "stop1 @ CHR '':'' # t1 = stop2 @ CHR '':'' # t2"
      by simp_all
    have "CHR '':'' \<notin> set t1" "CHR '':'' \<notin> set t2"
      using assms(3,4) by (simp_all add: SERVICE_PATTERNS_no_colon)
    from split_at_last [OF this rest] l show ?thesis by simp
  qed
  have first: "cache_input line1 stop1 t1 = cache_input line2 stop2 t2
      \<longleftrightarrow> line1 = line2 \<and> stop1 = stop2 \<and> t1 = t2"
    using inj by blast
  have second: "cache_hash sha256 line1 stop1 t1 = cache_hash sha256 line2 stop2 t2
            \<longleftrightarrow> (line1 = line2 \<and> stop1 = stop2 \<and> t1 = t2)
              \<or> (cache_input line1 stop1 t1 \<noteq> cache_input line2 stop2 t2
                  \<and> sha256 (cache_input line1 stop1 t1) = sha256 (cache_input line2 stop2 t2))"
    unfolding cache_hash_def using first by blast
  from first second show ?thesis by (rule conjI)
qed

theorem cache_input_injective_witness:
  "CHR '':'' \<notin> set ''9'' \<and> ''weekday'' \<in> fst ` set SERVICE_PATTERNS
   \<and> ''sunday'' \<in> fst ` set SERVICE_PATTERNS
   \<and> cache_input ''9'' ''Duomo'' ''weekday'' \<noteq> cache_input ''9'' ''Duomo'' ''sunday''
   \<and> cache_hash (\<lambda>s. s) ''9'' ''Duomo'' ''weekday'' \<noteq> cache_hash (\<lambda>s. s) ''9'' ''Duomo'' ''sunday''"
proof -
  have h1: "CHR '':'' \<notin> set ''9''" by simp
  have h2: "''weekday'' \<in> fst ` set SERVICE_PATTERNS" by (simp add: SERVICE_PATTERNS_def)
  have h3: "''sunday'' \<in> fst ` set SERVICE_PATTERNS" by (simp add: SERVICE_PATTERNS_def)
  have ne: "''weekday'' \<noteq> ''sunday''" by simp
  note inst = cache_input_injective [OF h1 h1 h2 h3, of "''Duomo''" "''Duomo''" "\<lambda>s. s"]
  from inst ne have a: "cache_input ''9'' ''Duomo'' ''weekday'' \<noteq> cache_input ''9'' ''Duomo'' ''sunday''"
    by blast
  from inst ne a have b: "cache_hash (\<lambda>s. s) ''9'' ''Duomo'' ''weekday'' \<noteq> cache_hash (\<lambda>s. s) ''9'' ''Duomo'' ''sunday''"
    by blast
  from h1 h2 h3 a b show ?thesis by blast
qed

subsection \<open>The report's file name\<close>

lemma filter_take_prefix:
  "\<exists>r. take n (filter P xs) = filter P (take m xs) @ r" if "length (filter P (take m xs)) \<le> n"
proof -
  have "filter P xs = filter P (take m xs) @ filter P (drop m xs)"
    by (metis append_take_drop_id filter_append)
  then have "take n (filter P xs) = take n (filter P (take m xs) @ filter P (drop m xs))"
    by simp
  also have "\<dots> = filter P (take m xs) @ take (n - length (filter P (take m xs))) (filter P (drop m xs))"
    using that by simp
  finally show ?thesis by blast
qed

lemma example_lower_premuda:
  "example_lower ''P.za Cinque Giornate Viale Premuda'' = ''p.za cinque giornate viale premuda''"
  by (simp add: example_lower_def)

lemma example_lower_genova: "example_lower ''Porta Genova'' = ''porta genova''"
  by (simp add: example_lower_def)

text \<open>
  Claim C3, as stated, fails: the code truncates before it strips the spaces. The stop name
  below has 34 characters, all of them ASCII, and four spaces, all among its first 30
  characters: the code's fragment has 26 characters, where lowercasing, stripping and then
  truncating gives 30.
\<close>

theorem slug_order_counterexample:
  "''P.za Cinque Giornate Viale Premuda'' \<noteq> []
   \<and> slug example_lower ''9'' ''P.za Cinque Giornate Viale Premuda''
       = ''line9-p.zacinquegiornatevialepre''
   \<and> ''line9-'' @ spec_slug_fragment example_lower ''P.za Cinque Giornate Viale Premuda''
       = ''line9-p.zacinquegiornatevialepremuda''"
  by (simp add: slug_def slug_fragment_def spec_slug_fragment_def example_lower_premuda
      replace_char_def)

text \<open>
  Claim C3, amended: for every non-empty stop name, the slug is \<^verbatim>\<open>line<line>-\<close>
  followed by the lowercased stop name, truncated to its first 30 characters, and then
  with the spaces removed (lowercase, truncate to 30, strip spaces, in that order). The
  fragment has at most 30 characters and no space, it is a prefix of the fragment obtained
  by stripping before truncating, and it is equal to it when the lowercased stop name has
  at most 30 characters. This holds whatever \<^verbatim>\<open>str.lower\<close> does to the name, also
  where it makes the name longer.
\<close>

theorem slug_fragment_order:
  assumes "stop_name \<noteq> []"
  shows "slug lower line stop_name = ''line'' @ line @ ''-'' @ slug_fragment lower stop_name
       \<and> slug_fragment lower stop_name
           = filter (\<lambda>c. c \<noteq> CHR '' '') (take 30 (lower stop_name))
       \<and> length (slug_fragment lower stop_name) \<le> 30
       \<and> CHR '' '' \<notin> set (slug_fragment lower stop_name)
       \<and> (\<exists>r. spec_slug_fragment lower stop_name = slug_fragment lower stop_name @ r)
       \<and> (length (lower stop_name) \<le> 30
            \<longrightarrow> slug_fragment lower stop_name = spec_slug_fragment lower stop_name)"
proof -
  let ?P = "\<lambda>c. c \<noteq> CHR '' ''"
  let ?low = "lower stop_name"
  have frag: "slug_fragment lower stop_name = filter ?P (take 30 ?low)"
    by (simp add: slug_fragment_def replace_char_remove)
  have "length (filter ?P (take 30 ?low)) \<le> length (take 30 ?low)"
    by (rule length_filter_le)
  then have len: "length (filter ?P (take 30 ?low)) \<le> 30" by simp
  have pre: "\<exists>r. spec_slug_fragment lower stop_name = slug_fragment lower stop_name @ r"
    unfolding spec_slug_fragment_def frag using len by (rule filter_take_prefix)
  have short: "slug_fragment lower stop_name = spec_slug_fragment lower stop_name"
    if "length ?low \<le> 30"
  proof -
    have "length (filter ?P ?low) \<le> length ?low"
      by (rule length_filter_le)
    also have "\<dots> \<le> 30" by (rule that)
    finally have "take 30 (filter ?P ?low) = filter ?P ?low"
      by simp
    moreover have "take 30 ?low = ?low"
      using that by simp
    ultimately show ?thesis by (simp add: frag spec_slug_fragment_def)
  qed
  from assms
  have "slug lower line stop_name = ''line'' @ line @ ''-'' @ slug_fragment lower stop_name"
    by (simp add: slug_def)
  with frag len pre short show ?thesis by simp
qed

theorem slug_fragment_order_witness:
  "''Porta Genova'' \<noteq> []
   \<and> length (example_lower ''Porta Genova'') \<le> 30
   \<and> slug example_lower ''9'' ''Porta Genova'' = ''line9-portagenova''
   \<and> slug_fragment example_lower ''Porta Genova''
       = spec_slug_fragment example_lower ''Porta Genova''"
proof -
  have h: "''Porta Genova'' \<noteq> []" by simp
  have len: "length (example_lower ''Porta Genova'') \<le> 30"
    by (simp add: example_lower_genova)
  from slug_fragment_order [OF h, of example_lower "''9''"]
  have s: "slug example_lower ''9'' ''Porta Genova''
      = ''line'' @ ''9'' @ ''-'' @ slug_fragment example_lower ''Porta Genova''"
    and e: "length (example_lower ''Porta Genova'') \<le> 30
      \<longrightarrow> slug_fragment example_lower ''Porta Genova''
          = spec_slug_fragment example_lower ''Porta Genova''"
    by blast+
  have v: "slug_fragment example_lower ''Porta Genova'' = ''portagenova''"
    by (simp add: slug_fragment_def example_lower_genova replace_char_def)
  from s v have "slug example_lower ''9'' ''Porta Genova'' = ''line9-portagenova''" by simp
  moreover from e len
  have "slug_fragment example_lower ''Porta Genova''
      = spec_slug_fragment example_lower ''Porta Genova''"
    by blast
  ultimately show ?thesis using h len by blast
qed

subsection \<open>The state store and the dataset\<close>

lemma get_cache_state_events: "snd (get_cache_state w key) = [StateGet key]"
  by (simp add: get_cache_state_def split: proc.splits)

lemma extract_gtfs_cases:
  "extract_gtfs w =
     (case extract_error w of
        None \<Rightarrow> (True, [Log ''Extracting GTFS data...'', Extract GTFS_ZIP GTFS_DIR,
                        StateSet gtfs_cache_key (utcnow_iso w)])
      | Some e \<Rightarrow> (False, [Log ''Extracting GTFS data...'', Extract GTFS_ZIP GTFS_DIR,
                          Log (''Error extracting GTFS: '' @ e)]))"
  by (simp add: extract_gtfs_def set_cache_state_def split: option.splits)

lemma download_gtfs_valid:
  assumes "cache_valid w (\<forall>f \<in> set table_files. path_exists w f) (fst (get_cache_state w gtfs_cache_key))"
  shows "download_gtfs w = (True, map Exists table_files @ [StateGet gtfs_cache_key])"
proof -
  obtain t ev where g: "get_cache_state w gtfs_cache_key = (t, ev)" by (cases "get_cache_state w gtfs_cache_key")
  with get_cache_state_events [of w gtfs_cache_key] have ev: "ev = [StateGet gtfs_cache_key]" by simp
  from assms g show ?thesis
    by (simp add: download_gtfs_def table_files_def ev)
qed

lemma download_gtfs_invalid:
  assumes "\<not> cache_valid w (\<forall>f \<in> set table_files. path_exists w f) (fst (get_cache_state w gtfs_cache_key))"
  shows "download_gtfs w =
     (let pre = map Exists table_files @ [StateGet gtfs_cache_key,
                  Log ''Downloading GTFS data from ATM Milano...'', Mkdir GTFS_DIR, Exists GTFS_ZIP]
      in if \<not> path_exists w GTFS_ZIP then
           (if curl_returncode w \<noteq> 0 then
              (False, pre @ [Fetch GTFS_URL GTFS_ZIP, Log ''Error: Failed to download GTFS data''])
            else (fst (extract_gtfs w), pre @ [Fetch GTFS_URL GTFS_ZIP] @ snd (extract_gtfs w)))
         else (fst (extract_gtfs w), pre @ snd (extract_gtfs w)))"
proof -
  obtain t ev where g: "get_cache_state w gtfs_cache_key = (t, ev)" by (cases "get_cache_state w gtfs_cache_key")
  with get_cache_state_events [of w gtfs_cache_key] have ev: "ev = [StateGet gtfs_cache_key]" by simp
  from assms g show ?thesis
    by (simp add: download_gtfs_def table_files_def ev Let_def split: prod.splits)
qed

text \<open>
  Claim C4: if the four table files exist, the state store answers with a non-empty
  timestamp, the timestamp parses, and its age is less than 86400 seconds, then
  \<^verbatim>\<open>download_gtfs\<close> returns \<^verbatim>\<open>True\<close> and all it does is to test the
  four files for existence and to read the timestamp from the store: it fetches nothing,
  extracts nothing, creates no directory, writes no file and writes nothing to the store.
\<close>

theorem download_gtfs_fresh:
  assumes "path_exists w (GTFS_DIR @ ''/routes.txt'')" and "path_exists w (GTFS_DIR @ ''/stops.txt'')"
    and "path_exists w (GTFS_DIR @ ''/trips.txt'')" and "path_exists w (GTFS_DIR @ ''/stop_times.txt'')"
    and "fst (get_cache_state w gtfs_cache_key) = Some t" and "t \<noteq> []"
    and "fromisoformat w (replace_char (CHR ''Z'') ''+00:00'' t) = Some ts"
    and "us (now w (tzinfo ts)) - us ts < 86400 * 1000000"
  shows "download_gtfs w =
           (True, [Exists (GTFS_DIR @ ''/routes.txt''), Exists (GTFS_DIR @ ''/stops.txt''),
                   Exists (GTFS_DIR @ ''/trips.txt''), Exists (GTFS_DIR @ ''/stop_times.txt''),
                   StateGet gtfs_cache_key])"
proof -
  have "cache_valid w (\<forall>f \<in> set table_files. path_exists w f) (fst (get_cache_state w gtfs_cache_key))"
    using assms by (simp add: cache_valid_def table_files_def younger_than_def GTFS_CACHE_TTL_def)
  from download_gtfs_valid [OF this] show ?thesis by (simp add: table_files_def)
qed

lemma fresh_world_timestamp:
  "fst (get_cache_state fresh_world gtfs_cache_key) = Some ''2026-01-15T09:30:00Z''"
  by (simp add: get_cache_state_def fresh_world_def example_world_def gtfs_cache_key_def
      after_equals_def strip_def is_space_def)

theorem download_gtfs_fresh_witness:
  "path_exists fresh_world (GTFS_DIR @ ''/routes.txt'')
   \<and> fst (get_cache_state fresh_world gtfs_cache_key) = Some ''2026-01-15T09:30:00Z''
   \<and> fromisoformat fresh_world ''2026-01-15T09:30:00+00:00''
        = Some \<lparr>tzinfo = Some 0, us = 1768469400000000\<rparr>
   \<and> download_gtfs fresh_world =
           (True, [Exists (GTFS_DIR @ ''/routes.txt''), Exists (GTFS_DIR @ ''/stops.txt''),
                   Exists (GTFS_DIR @ ''/trips.txt''), Exists (GTFS_DIR @ ''/stop_times.txt''),
                   StateGet gtfs_cache_key])"
proof -
  have f: "path_exists fresh_world (GTFS_DIR @ ''/routes.txt'')"
    "path_exists fresh_world (GTFS_DIR @ ''/stops.txt'')"
    "path_exists fresh_world (GTFS_DIR @ ''/trips.txt'')"
    "path_exists fresh_world (GTFS_DIR @ ''/stop_times.txt'')"
    by (simp_all add: fresh_world_def)
  have ne: "''2026-01-15T09:30:00Z'' \<noteq> []" by simp
  have p: "fromisoformat fresh_world (replace_char (CHR ''Z'') ''+00:00'' ''2026-01-15T09:30:00Z'')
      = Some \<lparr>tzinfo = Some 0, us = 1768469400000000\<rparr>"
    by (simp add: fresh_world_def example_world_def replace_char_def)
  have a: "us (now fresh_world (tzinfo \<lparr>tzinfo = Some 0, us = 1768469400000000\<rparr>))
      - us \<lparr>tzinfo = Some 0, us = 1768469400000000\<rparr> < 86400 * 1000000"
    by (simp add: fresh_world_def example_world_def)
  have p': "fromisoformat fresh_world ''2026-01-15T09:30:00+00:00''
        = Some \<lparr>tzinfo = Some 0, us = 1768469400000000\<rparr>"
    using p by (simp add: replace_char_def)
  from download_gtfs_fresh [OF f fresh_world_timestamp ne p a] f(1) fresh_world_timestamp p'
  show ?thesis by blast
qed

lemma stale_world_invalid:
  "\<not> cache_valid stale_world (\<forall>f \<in> set table_files. path_exists stale_world f)
       (fst (get_cache_state stale_world gtfs_cache_key))"
  by (simp add: cache_valid_def stale_world_def table_files_def GTFS_ZIP_def)

lemma corrupt_world_invalid:
  "\<not> cache_valid corrupt_world (\<forall>f \<in> set table_files. path_exists corrupt_world f)
       (fst (get_cache_state corrupt_world gtfs_cache_key))"
  by (simp add: cache_valid_def corrupt_world_def stale_world_def table_files_def GTFS_ZIP_def)

text \<open>
  Claim C9, as stated, fails in its middle part: with the archive on disk and the tables
  missing, \<^verbatim>\<open>download_gtfs\<close> extracts the archive, but when the extraction raises
  (here the archive is not a zip file) it returns \<^verbatim>\<open>False\<close> and records no
  timestamp.
\<close>

theorem download_gtfs_corrupt_archive:
  "path_exists corrupt_world GTFS_ZIP
   \<and> \<not> path_exists corrupt_world (GTFS_DIR @ ''/routes.txt'')
   \<and> download_gtfs corrupt_world =
       (False, [Exists (GTFS_DIR @ ''/routes.txt''), Exists (GTFS_DIR @ ''/stops.txt''),
                Exists (GTFS_DIR @ ''/trips.txt''), Exists (GTFS_DIR @ ''/stop_times.txt''),
                StateGet gtfs_cache_key, Log ''Downloading GTFS data from ATM Milano...'',
                Mkdir GTFS_DIR, Exists GTFS_ZIP, Log ''Extracting GTFS data...'',
                Extract GTFS_ZIP GTFS_DIR, Log ''Error extracting GTFS: File is not a zip file''])
   \<and> StateSet gtfs_cache_key (utcnow_iso corrupt_world) \<notin> set (snd (download_gtfs corrupt_world))"
proof -
  have z: "path_exists corrupt_world GTFS_ZIP" by (simp add: corrupt_world_def stale_world_def)
  have r: "\<not> path_exists corrupt_world (GTFS_DIR @ ''/routes.txt'')"
    by (simp add: corrupt_world_def stale_world_def GTFS_ZIP_def)
  have e: "extract_error corrupt_world = Some ''File is not a zip file''"
    by (simp add: corrupt_world_def)
  from download_gtfs_invalid [OF corrupt_world_invalid] z e
  have d: "download_gtfs corrupt_world =
       (False, [Exists (GTFS_DIR @ ''/routes.txt''), Exists (GTFS_DIR @ ''/stops.txt''),
                Exists (GTFS_DIR @ ''/trips.txt''), Exists (GTFS_DIR @ ''/stop_times.txt''),
                StateGet gtfs_cache_key, Log ''Downloading GTFS data from ATM Milano...'',
                Mkdir GTFS_DIR, Exists GTFS_ZIP, Log ''Extracting GTFS data...'',
                Extract GTFS_ZIP GTFS_DIR, Log ''Error extracting GTFS: File is not a zip file''])"
    by (simp add: Let_def extract_gtfs_cases table_files_def)
  have "StateSet gtfs_cache_key (utcnow_iso corrupt_world) \<notin> set (snd (download_gtfs corrupt_world))"
    unfolding d by simp
  with z r d show ?thesis by blast
qed

text \<open>
  Claim C9, amended: whenever the archive file exists, \<^verbatim>\<open>download_gtfs\<close> performs no
  network fetch (so a fetch happens only when the archive is missing). If moreover the
  freshness test fails (a table file is missing, or the timestamp is absent, empty,
  ill-formed or not younger than the 24 hours), it extracts the existing archive, however
  old; when the extraction succeeds it records the current time in the store and returns
  \<^verbatim>\<open>True\<close>, and when the extraction fails it logs the error, records nothing and
  returns \<^verbatim>\<open>False\<close>.
\<close>

theorem download_gtfs_archive_present:
  assumes "path_exists w GTFS_ZIP"
  shows "(\<forall>url dest. Fetch url dest \<notin> set (snd (download_gtfs w)))
       \<and> (\<not> cache_valid w (\<forall>f \<in> set table_files. path_exists w f)
               (fst (get_cache_state w gtfs_cache_key)) \<longrightarrow>
            download_gtfs w =
              (case extract_error w of
                 None \<Rightarrow>
                   (True, map Exists table_files
                      @ [StateGet gtfs_cache_key, Log ''Downloading GTFS data from ATM Milano...'',
                         Mkdir GTFS_DIR, Exists GTFS_ZIP, Log ''Extracting GTFS data...'',
                         Extract GTFS_ZIP GTFS_DIR, StateSet gtfs_cache_key (utcnow_iso w)])
               | Some e \<Rightarrow>
                   (False, map Exists table_files
                      @ [StateGet gtfs_cache_key, Log ''Downloading GTFS data from ATM Milano...'',
                         Mkdir GTFS_DIR, Exists GTFS_ZIP, Log ''Extracting GTFS data...'',
                         Extract GTFS_ZIP GTFS_DIR, Log (''Error extracting GTFS: '' @ e)])))"
proof (cases "cache_valid w (\<forall>f \<in> set table_files. path_exists w f)
               (fst (get_cache_state w gtfs_cache_key))")
  case True
  from download_gtfs_valid [OF True] show ?thesis using True by (auto simp: table_files_def)
next
  case False
  from download_gtfs_invalid [OF False] assms
  have d: "download_gtfs w =
      (fst (extract_gtfs w),
       (map Exists table_files @ [StateGet gtfs_cache_key,
          Log ''Downloading GTFS data from ATM Milano...'', Mkdir GTFS_DIR, Exists GTFS_ZIP])
       @ snd (extract_gtfs w))"
    by (simp add: Let_def)
  show ?thesis
  proof (cases "extract_error w")
    case None
    with d show ?thesis by (auto simp: extract_gtfs_cases table_files_def)
  next
    case (Some e)
    with d show ?thesis by (auto simp: extract_gtfs_cases table_files_def)
  qed
qed

theorem download_gtfs_archive_present_witness:
  "path_exists stale_world GTFS_ZIP
   \<and> \<not> path_exists stale_world (GTFS_DIR @ ''/routes.txt'')
   \<and> download_gtfs stale_world =
       (True, map Exists table_files
          @ [StateGet gtfs_cache_key, Log ''Downloading GTFS data from ATM Milano...'',
             Mkdir GTFS_DIR, Exists GTFS_ZIP, Log ''Extracting GTFS data...'',
             Extract GTFS_ZIP GTFS_DIR, StateSet gtfs_cache_key ''2026-01-15T10:00:00Z''])"
proof -
  have z: "path_exists stale_world GTFS_ZIP" by (simp add: stale_world_def)
  have r: "\<not> path_exists stale_world (GTFS_DIR @ ''/routes.txt'')"
    by (simp add: stale_world_def GTFS_ZIP_def)
  have e: "extract_error stale_world = None" "utcnow_iso stale_world = ''2026-01-15T10:00:00Z''"
    by (simp_all add: stale_world_def example_world_def)
  from download_gtfs_archive_present [OF z] stale_world_invalid
  have "download_gtfs stale_world =
      (case extract_error stale_world of
                 None \<Rightarrow>
                   (True, map Exists table_files
                      @ [StateGet gtfs_cache_key, Log ''Downloading GTFS data from ATM Milano...'',
                         Mkdir GTFS_DIR, Exists GTFS_ZIP, Log ''Extracting GTFS data...'',
                         Extract GTFS_ZIP GTFS_DIR, StateSet gtfs_cache_key (utcnow_iso stale_world)])
               | Some e \<Rightarrow>
                   (False, map Exists table_files
                      @ [StateGet gtfs_cache_key, Log ''Downloading GTFS data from ATM Milano...'',
                         Mkdir GTFS_DIR, Exists GTFS_ZIP, Log ''Extracting GTFS data...'',
                         Extract GTFS_ZIP GTFS_DIR, Log (''Error extracting GTFS: '' @ e)]))"
    by blast
  with e z r show ?thesis by simp
qed

subsection \<open>The query cache\<close>

lemma check_cache_try_hit:
  "fst (check_cache_try w entry ttl) = Inr (Some d) \<longleftrightarrow>
     (\<exists>s ts p. json_loads w entry = Some d
        \<and> subscript d ''timestamp'' = Inr (JStr s)
        \<and> fromisoformat w (replace_char (CHR ''Z'') ''+00:00'' s) = Some ts
        \<and> us (now w (tzinfo ts)) - us ts < ttl * 1000000
        \<and> dict_get d ''text_path'' = Inr (JStr p) \<and> p \<noteq> [] \<and> path_exists w p)"
  unfolding check_cache_try_def younger_than_def
  by (auto split: option.splits sum.splits json.splits)

lemma check_cache_cases:
  "check_cache w key ttl =
     (case fst (get_cache_state w key) of
        None \<Rightarrow> (Inr None, [StateGet key])
      | Some entry \<Rightarrow>
          if entry = [] then (Inr None, [StateGet key])
          else (case fst (check_cache_try w entry ttl) of
                  Inl e \<Rightarrow> Inr None
                | Inr r \<Rightarrow> Inr r, StateGet key # snd (check_cache_try w entry ttl)))"
proof -
  obtain t ev where g: "get_cache_state w key = (t, ev)" by (cases "get_cache_state w key")
  with get_cache_state_events [of w key] have ev: "ev = [StateGet key]" by simp
  show ?thesis
    by (simp add: check_cache_def g ev split: option.splits prod.splits sum.splits)
qed

text \<open>
  Claim C10: \<^verbatim>\<open>check_cache\<close> never raises, and it reports a hit with the entry \<open>d\<close>
  exactly when the store gives a non-empty entry that parses as JSON to \<open>d\<close>, \<open>d\<close> is an
  object whose \<^verbatim>\<open>timestamp\<close> is a string that parses as a date, the age is strictly
  less than the time to live, and \<^verbatim>\<open>text_path\<close> is a non-empty string naming a file
  that exists. In every other case (no entry, malformed JSON, ill-formed timestamp,
  expired entry, missing file) the result is a miss. The time to live that
  \<^verbatim>\<open>main\<close> passes is 3600 seconds.
\<close>

theorem check_cache_total:
  "(\<exists>r. fst (check_cache w key ttl) = Inr r)
   \<and> (fst (check_cache w key ttl) = Inr (Some d) \<longleftrightarrow>
        (\<exists>entry s ts p.
            fst (get_cache_state w key) = Some entry \<and> entry \<noteq> []
          \<and> json_loads w entry = Some d
          \<and> subscript d ''timestamp'' = Inr (JStr s)
          \<and> fromisoformat w (replace_char (CHR ''Z'') ''+00:00'' s) = Some ts
          \<and> us (now w (tzinfo ts)) - us ts < ttl * 1000000
          \<and> dict_get d ''text_path'' = Inr (JStr p) \<and> p \<noteq> [] \<and> path_exists w p))
   \<and> SCHEDULE_CACHE_TTL = 3600"
proof -
  have total: "\<exists>r. fst (check_cache w key ttl) = Inr r"
    by (simp add: check_cache_cases split: option.splits sum.splits)
  have hit: "fst (check_cache w key ttl) = Inr (Some d) \<longleftrightarrow>
      (\<exists>entry. fst (get_cache_state w key) = Some entry \<and> entry \<noteq> []
         \<and> fst (check_cache_try w entry ttl) = Inr (Some d))"
    by (auto simp: check_cache_cases split: option.splits sum.splits)
  have "fst (check_cache w key ttl) = Inr (Some d) \<longleftrightarrow>
        (\<exists>entry s ts p.
            fst (get_cache_state w key) = Some entry \<and> entry \<noteq> []
          \<and> json_loads w entry = Some d
          \<and> subscript d ''timestamp'' = Inr (JStr s)
          \<and> fromisoformat w (replace_char (CHR ''Z'') ''+00:00'' s) = Some ts
          \<and> us (now w (tzinfo ts)) - us ts < ttl * 1000000
          \<and> dict_get d ''text_path'' = Inr (JStr p) \<and> p \<noteq> [] \<and> path_exists w p)"
    unfolding hit check_cache_try_hit by blast
  with total show ?thesis by (simp add: SCHEDULE_CACHE_TTL_def)
qed

lemma cached_world_entry:
  "fst (get_cache_state cached_world ''k'') = Some ''{entry}''"
  by (simp add: get_cache_state_def cached_world_def after_equals_def strip_def is_space_def)

theorem check_cache_total_witness:
  "fst (get_cache_state cached_world ''k'') = Some ''{entry}''
   \<and> json_loads cached_world ''{entry}'' = Some example_entry
   \<and> fst (check_cache cached_world ''k'' 3600) = Inr (Some example_entry)
   \<and> fst (check_cache (cached_world\<lparr>path_exists := (\<lambda>p. False)\<rparr>) ''k'' 3600) = Inr None"
proof -
  let ?p = "''/data/generated/atm-tram-schedule/2026/01/15/20260115-103000-line9-all.txt''"
  let ?ts = "\<lparr>tzinfo = Some 0, us = 1768469400000000\<rparr>"
  have j: "json_loads cached_world ''{entry}'' = Some example_entry"
    by (simp add: cached_world_def example_world_def)
  have s: "subscript example_entry ''timestamp'' = Inr (JStr ''2026-01-15T09:30:00Z'')"
    by (simp add: example_entry_def)
  have f: "fromisoformat cached_world (replace_char (CHR ''Z'') ''+00:00'' ''2026-01-15T09:30:00Z'')
      = Some ?ts"
    by (simp add: cached_world_def example_world_def replace_char_def)
  have a: "us (now cached_world (tzinfo ?ts)) - us ?ts < 3600 * 1000000"
    by (simp add: cached_world_def example_world_def)
  have t: "dict_get example_entry ''text_path'' = Inr (JStr ?p)"
    by (simp add: example_entry_def)
  have e: "?p \<noteq> []" "path_exists cached_world ?p"
    by (simp_all add: cached_world_def)
  from check_cache_total [of cached_world "''k''" 3600 example_entry]
    cached_world_entry j s f a t e
  have hit: "fst (check_cache cached_world ''k'' 3600) = Inr (Some example_entry)"
    by blast
  let ?w = "cached_world\<lparr>path_exists := (\<lambda>p. False)\<rparr>"
  from check_cache_total [of ?w "''k''" 3600]
  obtain r where r: "fst (check_cache ?w ''k'' 3600) = Inr r" by blast
  have "r = None"
  proof (cases r)
    case None
    then show ?thesis .
  next
    case (Some d)
    with r check_cache_total [of ?w "''k''" 3600 d]
    have "\<exists>p. path_exists ?w p" by blast
    then show ?thesis by simp
  qed
  with r have miss: "fst (check_cache ?w ''k'' 3600) = Inr None" by simp
  from cached_world_entry j hit miss show ?thesis by blast
qed

subsection \<open>The validation of the schedule type\<close>

text \<open>
  Claim C8: when the schedule type given on the command line is none of weekday, saturday
  and sunday, the run ends with exit code 1 and its only event is the error message: the
  store is neither read nor written, no file is tested, read or written, nothing is
  fetched or extracted.
\<close>

theorem invalid_schedule_type:
  assumes "length argv = 4" and "argv ! 3 \<notin> fst ` set SERVICE_PATTERNS"
  shows "main w argv =
    (Exit 1, [Log ''Error: schedule-type must be one of: weekday, saturday, sunday''])"
proof -
  from assms(2) have "map_of SERVICE_PATTERNS (argv ! 3) = None"
    by (simp add: map_of_eq_None_iff)
  with assms(1) show ?thesis
    by (simp add: main_def arg_schedule_type_def SERVICE_PATTERNS_def)
qed

theorem invalid_schedule_type_witness:
  "length [''check-tram-schedule.py'', ''9'', ''Duomo'', ''tuesday''] = 4
   \<and> ''tuesday'' \<notin> fst ` set SERVICE_PATTERNS
   \<and> main example_world [''check-tram-schedule.py'', ''9'', ''Duomo'', ''tuesday''] =
       (Exit 1, [Log ''Error: schedule-type must be one of: weekday, saturday, sunday''])"
proof -
  have l: "length [''check-tram-schedule.py'', ''9'', ''Duomo'', ''tuesday''] = 4" by simp
  have t: "[''check-tram-schedule.py'', ''9'', ''Duomo'', ''tuesday''] ! 3
      \<notin> fst ` set SERVICE_PATTERNS"
    by (simp add: SERVICE_PATTERNS_def)
  from invalid_schedule_type [OF l t, of example_world] l t show ?thesis by simp
qed

subsection \<open>The program up to the query\<close>

lemma main_reaches_query:
  assumes "2 \<le> length argv" and "length argv \<le> 4"
    and "map_of SERVICE_PATTERNS (arg_schedule_type argv) = Some pat"
    and "fst (check_cache w (cache_key_of (sha256_hex w) (arg_line argv) (arg_stop_name argv)
               (arg_schedule_type argv)) SCHEDULE_CACHE_TTL) = Inr None"
    and "fst (download_gtfs w)"
  shows "main w argv =
     (fst (run_query w (arg_line argv) (arg_stop_name argv) (arg_schedule_type argv) pat
             (cache_key_of (sha256_hex w) (arg_line argv) (arg_stop_name argv)
               (arg_schedule_type argv))),
      snd (check_cache w (cache_key_of (sha256_hex w) (arg_line argv) (arg_stop_name argv)
               (arg_schedule_type argv)) SCHEDULE_CACHE_TTL)
      @ snd (download_gtfs w)
      @ snd (run_query w (arg_line argv) (arg_stop_name argv) (arg_schedule_type argv) pat
             (cache_key_of (sha256_hex w) (arg_line argv) (arg_stop_name argv)
               (arg_schedule_type argv))))"
  using assms by (auto simp: main_def Let_def split: prod.splits)

lemma run_query_no_route:
  assumes "routes_txt w = Some r_rows" and "stops_txt w = Some s_rows"
    and "find_route_id line (load_routes r_rows) = None"
  shows "run_query w line stop_nm schedule_type pat key =
     (Exit 1, [Log (''Querying GTFS data for line '' @ line @ ''...''),
               ReadTable (GTFS_DIR @ ''/routes.txt''), ReadTable (GTFS_DIR @ ''/stops.txt'')]
              @ route_not_found line (load_routes r_rows))"
  using assms by (simp add: run_query_def Let_def)

lemma run_query_no_trips:
  assumes "routes_txt w = Some r_rows" and "stops_txt w = Some s_rows"
    and "find_route_id line (load_routes r_rows) = Some rid" and "rid \<noteq> []"
    and "trips_txt w = Some t_rows" and "find_trips t_rows rid pat 50 = []"
  shows "run_query w line stop_nm schedule_type pat key =
     (Exit 1, [Log (''Querying GTFS data for line '' @ line @ ''...''),
               ReadTable (GTFS_DIR @ ''/routes.txt''), ReadTable (GTFS_DIR @ ''/stops.txt''),
               ReadTable (GTFS_DIR @ ''/trips.txt''),
               Log (''No trips found for line '' @ line @ '' on '' @ schedule_type)])"
  using assms by (simp add: run_query_def Let_def)

lemma run_query_report:
  assumes "routes_txt w = Some r_rows" and "stops_txt w = Some s_rows"
    and "find_route_id line (load_routes r_rows) = Some rid" and "rid \<noteq> []"
    and "trips_txt w = Some t_rows" and "find_trips t_rows rid pat 50 \<noteq> []"
  shows "run_query w line stop_nm schedule_type pat key =
     (fst (write_report w line stop_nm schedule_type key rid (find_trips t_rows rid pat 50)
             (load_stops s_rows)),
      [Log (''Querying GTFS data for line '' @ line @ ''...''),
       ReadTable (GTFS_DIR @ ''/routes.txt''), ReadTable (GTFS_DIR @ ''/stops.txt''),
       ReadTable (GTFS_DIR @ ''/trips.txt'')]
      @ snd (write_report w line stop_nm schedule_type key rid (find_trips t_rows rid pat 50)
             (load_stops s_rows)))"
  using assms by (simp add: run_query_def Let_def split: prod.splits)

subsection \<open>Route resolution\<close>

lemma find_route_scan_first:
  assumes "i < length routes"
    and "short_name (snd (routes ! i)) = line \<and> rtype (snd (routes ! i)) = ''0''"
    and "\<forall>j<i. \<not> (short_name (snd (routes ! j)) = line \<and> rtype (snd (routes ! j)) = ''0'')"
  shows "find_route_scan line routes = Some (fst (routes ! i))"
  using assms
proof (induction routes arbitrary: i)
  case Nil
  then show ?case by simp
next
  case (Cons p routes)
  obtain rid rdata where p: "p = (rid, rdata)" by (cases p)
  show ?case
  proof (cases i)
    case 0
    with Cons.prems p show ?thesis by simp
  next
    case (Suc k)
    with Cons.prems(3) have no: "\<not> (short_name rdata = line \<and> rtype rdata = ''0'')"
      using p by fastforce
    from Suc Cons.prems have "find_route_scan line routes = Some (fst (routes ! k))"
      by (intro Cons.IH) auto
    with no p Suc show ?thesis by auto
  qed
qed

lemma find_route_scan_none:
  "(\<forall>p \<in> set routes. \<not> (short_name (snd p) = line \<and> rtype (snd p) = ''0''))
    \<Longrightarrow> find_route_scan line routes = None"
  by (induction routes) auto

lemma route_listing_all:
  assumes "(rid, rdata) \<in> set routes" and "rtype rdata = ''0''"
  shows "Log (''  '' @ short_name rdata @ '': '' @ long_name rdata) \<in> set (route_listing routes)"
proof -
  from assms have "(rid, rdata) \<in> set (filter (\<lambda>(rid, rdata). rtype rdata = ''0'') (sort_key fst routes))"
    by simp
  then have "(\<lambda>(rid, rdata). Log (''  '' @ short_name rdata @ '': '' @ long_name rdata)) (rid, rdata)
      \<in> set (route_listing routes)"
    unfolding route_listing_def set_map by (rule imageI)
  then show ?thesis by simp
qed

text \<open>
  Claim C6: \<^verbatim>\<open>find_route_id\<close> returns the id \<^verbatim>\<open>"T" + line\<close> when that id
  is a key of the routes table; otherwise the id of the first route, in the order of the
  table, whose short name is the line and whose type is \<^verbatim>\<open>"0"\<close>; otherwise no route.
  When a run reaches the route resolution (valid arguments, no cache hit, dataset in place,
  tables read) and no route is found, it ends with exit code 1, and the end of its trace is
  the error message followed by one line for every route of type \<^verbatim>\<open>"0"\<close>.
\<close>

theorem find_route_id_resolution:
  "(''T'' @ line \<in> fst ` set routes \<longrightarrow> find_route_id line routes = Some (''T'' @ line))
   \<and> (''T'' @ line \<notin> fst ` set routes \<longrightarrow>
        (\<forall>i < length routes.
            short_name (snd (routes ! i)) = line \<and> rtype (snd (routes ! i)) = ''0''
          \<and> (\<forall>j<i. \<not> (short_name (snd (routes ! j)) = line \<and> rtype (snd (routes ! j)) = ''0''))
          \<longrightarrow> find_route_id line routes = Some (fst (routes ! i)))
      \<and> ((\<forall>p \<in> set routes. \<not> (short_name (snd p) = line \<and> rtype (snd p) = ''0''))
          \<longrightarrow> find_route_id line routes = None))
   \<and> (2 \<le> length argv \<and> length argv \<le> 4 \<and> arg_line argv = line
      \<and> map_of SERVICE_PATTERNS (arg_schedule_type argv) = Some pat
      \<and> fst (check_cache w (cache_key_of (sha256_hex w) (arg_line argv) (arg_stop_name argv)
               (arg_schedule_type argv)) SCHEDULE_CACHE_TTL) = Inr None
      \<and> fst (download_gtfs w)
      \<and> routes_txt w = Some r_rows \<and> stops_txt w = Some s_rows
      \<and> routes = load_routes r_rows \<and> find_route_id line routes = None
      \<longrightarrow> fst (main w argv) = Exit 1
        \<and> (\<exists>pre. snd (main w argv) = pre @
              [Log (''Error: Line '' @ line @ '' not found in GTFS data''),
               Log ([CHR 0x0A] @ ''Available tram lines (route_type=0):'')]
              @ route_listing routes)
        \<and> (\<forall>(rid, rdata) \<in> set routes. rtype rdata = ''0'' \<longrightarrow>
              Log (''  '' @ short_name rdata @ '': '' @ long_name rdata) \<in> set (route_listing routes)))"
proof (intro conjI impI allI)
  assume "''T'' @ line \<in> fst ` set routes"
  then show "find_route_id line routes = Some (''T'' @ line)"
    by (simp add: find_route_id_def)
next
  fix i
  assume "''T'' @ line \<notin> fst ` set routes" and "i < length routes"
    and "short_name (snd (routes ! i)) = line \<and> rtype (snd (routes ! i)) = ''0''
          \<and> (\<forall>j<i. \<not> (short_name (snd (routes ! j)) = line \<and> rtype (snd (routes ! j)) = ''0''))"
  then show "find_route_id line routes = Some (fst (routes ! i))"
    by (simp add: find_route_id_def find_route_scan_first)
next
  assume "''T'' @ line \<notin> fst ` set routes"
    and "\<forall>p \<in> set routes. \<not> (short_name (snd p) = line \<and> rtype (snd p) = ''0'')"
  then show "find_route_id line routes = None"
    by (simp add: find_route_id_def find_route_scan_none)
next
  assume a: "2 \<le> length argv \<and> length argv \<le> 4 \<and> arg_line argv = line
      \<and> map_of SERVICE_PATTERNS (arg_schedule_type argv) = Some pat
      \<and> fst (check_cache w (cache_key_of (sha256_hex w) (arg_line argv) (arg_stop_name argv)
               (arg_schedule_type argv)) SCHEDULE_CACHE_TTL) = Inr None
      \<and> fst (download_gtfs w)
      \<and> routes_txt w = Some r_rows \<and> stops_txt w = Some s_rows
      \<and> routes = load_routes r_rows \<and> find_route_id line routes = None"
  then have a1: "2 \<le> length argv" and a2: "length argv \<le> 4" and a3: "arg_line argv = line"
    and a4: "map_of SERVICE_PATTERNS (arg_schedule_type argv) = Some pat"
    and a5: "fst (check_cache w (cache_key_of (sha256_hex w) (arg_line argv) (arg_stop_name argv)
               (arg_schedule_type argv)) SCHEDULE_CACHE_TTL) = Inr None"
    and a6: "fst (download_gtfs w)"
    and a7: "routes_txt w = Some r_rows" and a8: "stops_txt w = Some s_rows"
    and a9: "find_route_id line (load_routes r_rows) = None" and a10: "routes = load_routes r_rows"
    by blast+
  note m = main_reaches_query [OF a1 a2 a4 a5 a6]
  note q = run_query_no_route [OF a7 a8 a9]
  show "fst (main w argv) = Exit 1" by (simp add: m a3 q)
  show "\<exists>pre. snd (main w argv) = pre @
              [Log (''Error: Line '' @ line @ '' not found in GTFS data''),
               Log ([CHR 0x0A] @ ''Available tram lines (route_type=0):'')]
              @ route_listing routes"
    by (simp add: m a3 q a10 route_not_found_def)
next
  show "\<forall>(rid, rdata) \<in> set routes. rtype rdata = ''0'' \<longrightarrow>
      Log (''  '' @ short_name rdata @ '': '' @ long_name rdata) \<in> set (route_listing routes)"
    using route_listing_all by blast
qed

subsection \<open>The example world\<close>

lemma example_load_routes:
  "load_routes example_routes =
     [(''T9'', \<lparr>short_name = ''9'', long_name = ''Centrale FS - Porta Genova'', rtype = ''0''\<rparr>),
      (''M1'', \<lparr>short_name = ''1'', long_name = ''Sesto FS - Rho Fiera'', rtype = ''1''\<rparr>),
      (''B15'', \<lparr>short_name = ''15'', long_name = ''Duomo - Rozzano'', rtype = ''3''\<rparr>),
      (''X15'', \<lparr>short_name = ''15'', long_name = ''Duomo - Rozzano'', rtype = ''0''\<rparr>)]"
  by (simp add: load_routes_def example_routes_def)

lemma example_load_stops:
  "load_stops example_stops =
     [(''S2'', \<lparr>name = ''Porta Genova'', lat = ''45.45'', lon = ''9.17''\<rparr>),
      (''S1'', \<lparr>name = ''Centrale FS'', lat = ''45.48'', lon = ''9.20''\<rparr>)]"
  by (simp add: load_stops_def example_stops_def)

lemma example_check_cache: "check_cache example_world key ttl = (Inr None, [StateGet key])"
  by (simp add: check_cache_def get_cache_state_def example_world_def)

lemma example_download: "fst (download_gtfs example_world)"
  by (simp add: download_gtfs_def get_cache_state_def cache_valid_def extract_gtfs_def
      example_world_def Let_def)

lemma example_tables:
  "routes_txt example_world = Some example_routes"
  "stops_txt example_world = Some example_stops"
  "trips_txt example_world = Some example_trips"
  "stop_times_txt example_world = Some example_stop_times"
  by (simp_all add: example_world_def)

lemma example_find_route:
  "find_route_id ''9'' (load_routes example_routes) = Some ''T9''"
  "find_route_id ''15'' (load_routes example_routes) = Some ''X15''"
  "find_route_id ''999999'' (load_routes example_routes) = None"
  by (simp_all add: example_load_routes find_route_id_def)

theorem find_route_id_resolution_witness:
  "find_route_id ''999999'' (load_routes example_routes) = None
   \<and> fst (main example_world [''check-tram-schedule.py'', ''999999'']) = Exit 1
   \<and> (\<exists>pre. snd (main example_world [''check-tram-schedule.py'', ''999999'']) = pre @
         [Log ''Error: Line 999999 not found in GTFS data'',
          Log ([CHR 0x0A] @ ''Available tram lines (route_type=0):''),
          Log ''  9: Centrale FS - Porta Genova'',
          Log ''  15: Duomo - Rozzano''])"
proof -
  let ?argv = "[''check-tram-schedule.py'', ''999999'']"
  have args: "2 \<le> length ?argv" "length ?argv \<le> 4" "arg_line ?argv = ''999999''"
    "map_of SERVICE_PATTERNS (arg_schedule_type ?argv) = Some '' LV ''"
    by (simp_all add: arg_line_def arg_schedule_type_def SERVICE_PATTERNS_def)
  have miss: "fst (check_cache example_world
      (cache_key_of (sha256_hex example_world) (arg_line ?argv) (arg_stop_name ?argv)
         (arg_schedule_type ?argv)) SCHEDULE_CACHE_TTL) = Inr None"
    by (simp add: example_check_cache)
  have listing: "route_listing (load_routes example_routes) =
      [Log ''  9: Centrale FS - Porta Genova'', Log ''  15: Duomo - Rozzano'']"
    by (simp add: route_listing_def example_load_routes)
  from find_route_id_resolution [of "''999999''" "load_routes example_routes" ?argv "'' LV ''"
      example_world example_routes example_stops]
    args miss example_download example_tables(1,2) example_find_route(3)
  have "fst (main example_world ?argv) = Exit 1
      \<and> (\<exists>pre. snd (main example_world ?argv) = pre @
              [Log (''Error: Line '' @ ''999999'' @ '' not found in GTFS data''),
               Log ([CHR 0x0A] @ ''Available tram lines (route_type=0):'')]
              @ route_listing (load_routes example_routes))"
    by blast
  with listing example_find_route(3) show ?thesis by simp
qed

subsection \<open>Trip selection\<close>

lemma update_new_key: "k \<notin> fst ` set al \<Longrightarrow> AList.update k v al = al @ [(k, v)]"
  by (induction al) auto

lemma find_trips_loop_skip:
  "\<not> (t_route_id row = rid \<and> str_in pat (t_service_id row)) \<Longrightarrow>
     find_trips_loop rid pat limit (row # rows) trips = find_trips_loop rid pat limit rows trips"
  by auto

lemma find_trips_loop_match:
  assumes "t_route_id row = rid \<and> str_in pat (t_service_id row)"
    and "t_trip_id row \<notin> fst ` set trips"
  shows "find_trips_loop rid pat limit (row # rows) trips =
     (if limit \<le> Suc (length trips)
      then trips @ [(t_trip_id row, case t_trip_headsign row of None \<Rightarrow> ''Unknown'' | Some h \<Rightarrow> h)]
      else find_trips_loop rid pat limit rows
             (trips @ [(t_trip_id row, case t_trip_headsign row of None \<Rightarrow> ''Unknown'' | Some h \<Rightarrow> h)]))"
  using assms by (simp add: Let_def update_new_key)

lemma find_trips_loop_take:
  assumes "length trips < limit"
    and "distinct (map fst trips @ map t_trip_id
           (filter (\<lambda>row. t_route_id row = rid \<and> str_in pat (t_service_id row)) rows))"
  shows "find_trips_loop rid pat limit rows trips =
     take limit (trips @ map (\<lambda>row. (t_trip_id row,
                    case t_trip_headsign row of None \<Rightarrow> ''Unknown'' | Some h \<Rightarrow> h))
        (filter (\<lambda>row. t_route_id row = rid \<and> str_in pat (t_service_id row)) rows))"
  using assms
proof (induction rows arbitrary: trips)
  case Nil
  then show ?case by simp
next
  case (Cons row rows)
  show ?case
  proof (cases "t_route_id row = rid \<and> str_in pat (t_service_id row)")
    case False
    from False Cons.prems have "find_trips_loop rid pat limit rows trips =
      take limit (trips @ map (\<lambda>row. (t_trip_id row,
                    case t_trip_headsign row of None \<Rightarrow> ''Unknown'' | Some h \<Rightarrow> h))
        (filter (\<lambda>row. t_route_id row = rid \<and> str_in pat (t_service_id row)) rows))"
      by (intro Cons.IH) auto
    moreover have "find_trips_loop rid pat limit (row # rows) trips
        = find_trips_loop rid pat limit rows trips"
      using False by (rule find_trips_loop_skip)
    moreover have "filter (\<lambda>row. t_route_id row = rid \<and> str_in pat (t_service_id row)) (row # rows)
        = filter (\<lambda>row. t_route_id row = rid \<and> str_in pat (t_service_id row)) rows"
      using False by auto
    ultimately show ?thesis by (simp only:)
  next
    case True
    let ?kv = "(t_trip_id row, case t_trip_headsign row of None \<Rightarrow> ''Unknown'' | Some h \<Rightarrow> h)"
    from True Cons.prems(2) have fresh: "t_trip_id row \<notin> fst ` set trips" by auto
    then have upd: "AList.update (t_trip_id row) (snd ?kv) trips = trips @ [?kv]"
      by (simp add: update_new_key)
    show ?thesis
    proof (cases "limit \<le> Suc (length trips)")
      case full: True
      with Cons.prems(1) have "limit = Suc (length trips)" by simp
      with True show ?thesis by (simp add: find_trips_loop_match [OF True fresh] del: find_trips_loop.simps)
    next
      case notfull: False
      then have l: "length (trips @ [?kv]) < limit" by simp
      from True Cons.prems(2) have d: "distinct (map fst (trips @ [?kv]) @ map t_trip_id
           (filter (\<lambda>row. t_route_id row = rid \<and> str_in pat (t_service_id row)) rows))"
        by auto
      from Cons.IH [OF l d] True notfull show ?thesis
        by (simp add: find_trips_loop_match [OF True fresh] del: find_trips_loop.simps)
    qed
  qed
qed

lemma find_trips_loop_stops:
  assumes "length trips < limit"
    and "distinct (map fst trips @ map t_trip_id
           (filter (\<lambda>row. t_route_id row = rid \<and> str_in pat (t_service_id row)) rows))"
    and "limit \<le> length trips
           + length (filter (\<lambda>row. t_route_id row = rid \<and> str_in pat (t_service_id row)) rows)"
  shows "find_trips_loop rid pat limit (rows @ later) trips = find_trips_loop rid pat limit rows trips"
  using assms
proof (induction rows arbitrary: trips)
  case Nil
  then show ?case by simp
next
  case (Cons row rows)
  show ?case
  proof (cases "t_route_id row = rid \<and> str_in pat (t_service_id row)")
    case False
    from False Cons.prems have "find_trips_loop rid pat limit (rows @ later) trips
        = find_trips_loop rid pat limit rows trips"
      by (intro Cons.IH) auto
    moreover have "find_trips_loop rid pat limit (row # rows) trips
        = find_trips_loop rid pat limit rows trips"
      using False by (rule find_trips_loop_skip)
    moreover have "find_trips_loop rid pat limit ((row # rows) @ later) trips
        = find_trips_loop rid pat limit (rows @ later) trips"
      unfolding append_Cons using False by (rule find_trips_loop_skip)
    ultimately show ?thesis by (simp only:)
  next
    case True
    let ?kv = "(t_trip_id row, case t_trip_headsign row of None \<Rightarrow> ''Unknown'' | Some h \<Rightarrow> h)"
    from True Cons.prems(2) have fresh: "t_trip_id row \<notin> fst ` set trips" by auto
    then have upd: "AList.update (t_trip_id row) (snd ?kv) trips = trips @ [?kv]"
      by (simp add: update_new_key)
    show ?thesis
    proof (cases "limit \<le> Suc (length trips)")
      case full: True
      with True show ?thesis by (simp add: find_trips_loop_match [OF True fresh] del: find_trips_loop.simps)
    next
      case notfull: False
      then have l: "length (trips @ [?kv]) < limit" by simp
      from True Cons.prems(2) have d: "distinct (map fst (trips @ [?kv]) @ map t_trip_id
           (filter (\<lambda>row. t_route_id row = rid \<and> str_in pat (t_service_id row)) rows))"
        by auto
      from True Cons.prems(3) have n: "limit \<le> length (trips @ [?kv])
           + length (filter (\<lambda>row. t_route_id row = rid \<and> str_in pat (t_service_id row)) rows)"
        by simp
      from Cons.IH [OF l d n] True notfull show ?thesis
        by (simp add: find_trips_loop_match [OF True fresh] del: find_trips_loop.simps)
    qed
  qed
qed

text \<open>
  Claim C5: for a trips table in which the selected rows have distinct trip ids,
  \<^verbatim>\<open>find_trips\<close> returns the rows whose route id is the resolved route and whose
  service id contains the pattern as a substring, in the order of the table, cut to the
  first 50; rows after the fiftieth selected row are not looked at. When a run reaches the
  trip selection and the selection is empty, it ends with exit code 1 and its last event is
  the message that names the line and the schedule type.
\<close>

theorem find_trips_selection:
  "(distinct (map t_trip_id
        (filter (\<lambda>row. t_route_id row = rid \<and> str_in pat (t_service_id row)) rows)) \<longrightarrow>
      find_trips rows rid pat 50 =
        take 50 (map (\<lambda>row. (t_trip_id row,
                    case t_trip_headsign row of None \<Rightarrow> ''Unknown'' | Some h \<Rightarrow> h))
          (filter (\<lambda>row. t_route_id row = rid \<and> str_in pat (t_service_id row)) rows))
    \<and> (50 \<le> length (filter (\<lambda>row. t_route_id row = rid \<and> str_in pat (t_service_id row)) rows)
        \<longrightarrow> find_trips (rows @ later) rid pat 50 = find_trips rows rid pat 50))
   \<and> (str_in pat s \<longleftrightarrow> (\<exists>before after. s = before @ pat @ after))
   \<and> (2 \<le> length argv \<and> length argv \<le> 4
      \<and> map_of SERVICE_PATTERNS (arg_schedule_type argv) = Some pat
      \<and> fst (check_cache w (cache_key_of (sha256_hex w) (arg_line argv) (arg_stop_name argv)
               (arg_schedule_type argv)) SCHEDULE_CACHE_TTL) = Inr None
      \<and> fst (download_gtfs w)
      \<and> routes_txt w = Some r_rows \<and> stops_txt w = Some s_rows
      \<and> find_route_id (arg_line argv) (load_routes r_rows) = Some rid \<and> rid \<noteq> []
      \<and> trips_txt w = Some rows \<and> find_trips rows rid pat 50 = []
      \<longrightarrow> fst (main w argv) = Exit 1
        \<and> last (snd (main w argv)) =
            Log (''No trips found for line '' @ arg_line argv @ '' on '' @ arg_schedule_type argv))"
proof (intro conjI impI)
  assume d: "distinct (map t_trip_id
        (filter (\<lambda>row. t_route_id row = rid \<and> str_in pat (t_service_id row)) rows))"
  have l: "length ([] :: string dict) < 50" by simp
  from d have d': "distinct (map fst ([] :: string dict) @ map t_trip_id
        (filter (\<lambda>row. t_route_id row = rid \<and> str_in pat (t_service_id row)) rows))"
    by simp
  from find_trips_loop_take [OF l d']
  show "find_trips rows rid pat 50 =
        take 50 (map (\<lambda>row. (t_trip_id row,
                    case t_trip_headsign row of None \<Rightarrow> ''Unknown'' | Some h \<Rightarrow> h))
          (filter (\<lambda>row. t_route_id row = rid \<and> str_in pat (t_service_id row)) rows))"
    by (simp add: find_trips_def)
  assume "50 \<le> length (filter (\<lambda>row. t_route_id row = rid \<and> str_in pat (t_service_id row)) rows)"
  then have n: "50 \<le> length ([] :: string dict)
      + length (filter (\<lambda>row. t_route_id row = rid \<and> str_in pat (t_service_id row)) rows)"
    by simp
  from find_trips_loop_stops [OF l d' n]
  show "find_trips (rows @ later) rid pat 50 = find_trips rows rid pat 50"
    by (simp add: find_trips_def)
next
  show "str_in pat s \<longleftrightarrow> (\<exists>before after. s = before @ pat @ after)"
    by (rule str_in_iff)
next
  assume a: "2 \<le> length argv \<and> length argv \<le> 4
      \<and> map_of SERVICE_PATTERNS (arg_schedule_type argv) = Some pat
      \<and> fst (check_cache w (cache_key_of (sha256_hex w) (arg_line argv) (arg_stop_name argv)
               (arg_schedule_type argv)) SCHEDULE_CACHE_TTL) = Inr None
      \<and> fst (download_gtfs w)
      \<and> routes_txt w = Some r_rows \<and> stops_txt w = Some s_rows
      \<and> find_route_id (arg_line argv) (load_routes r_rows) = Some rid \<and> rid \<noteq> []
      \<and> trips_txt w = Some rows \<and> find_trips rows rid pat 50 = []"
  then have a1: "2 \<le> length argv" and a2: "length argv \<le> 4"
    and a4: "map_of SERVICE_PATTERNS (arg_schedule_type argv) = Some pat"
    and a5: "fst (check_cache w (cache_key_of (sha256_hex w) (arg_line argv) (arg_stop_name argv)
               (arg_schedule_type argv)) SCHEDULE_CACHE_TTL) = Inr None"
    and a6: "fst (download_gtfs w)"
    and a7: "routes_txt w = Some r_rows" and a8: "stops_txt w = Some s_rows"
    and a9: "find_route_id (arg_line argv) (load_routes r_rows) = Some rid" and a10: "rid \<noteq> []"
    and a11: "trips_txt w = Some rows" and a12: "find_trips rows rid pat 50 = []"
    by blast+
  note m = main_reaches_query [OF a1 a2 a4 a5 a6]
  note q = run_query_no_trips [OF a7 a8 a9 a10 a11 a12]
  show "fst (main w argv) = Exit 1" by (simp add: m q)
  show "last (snd (main w argv)) =
      Log (''No trips found for line '' @ arg_line argv @ '' on '' @ arg_schedule_type argv)"
    by (simp add: m q)
qed

lemma example_find_trips:
  "find_trips example_trips ''T9'' '' LV '' 50 = [(''t1'', ''Porta Genova''), (''t4'', ''Centrale FS'')]"
  "find_trips example_trips ''X15'' '' LV '' 50 = []"
  by (simp_all add: find_trips_def example_trips_def)

theorem find_trips_selection_witness:
  "distinct (map t_trip_id
        (filter (\<lambda>row. t_route_id row = ''T9'' \<and> str_in '' LV '' (t_service_id row)) example_trips))
   \<and> find_trips example_trips ''T9'' '' LV '' 50 = [(''t1'', ''Porta Genova''), (''t4'', ''Centrale FS'')]
   \<and> find_trips example_trips ''X15'' '' LV '' 50 = []
   \<and> fst (main example_world [''check-tram-schedule.py'', ''15'']) = Exit 1
   \<and> last (snd (main example_world [''check-tram-schedule.py'', ''15''])) =
        Log ''No trips found for line 15 on weekday''"
proof -
  let ?argv = "[''check-tram-schedule.py'', ''15'']"
  have d: "distinct (map t_trip_id
        (filter (\<lambda>row. t_route_id row = ''T9'' \<and> str_in '' LV '' (t_service_id row)) example_trips))"
    by (simp add: example_trips_def)
  have args: "2 \<le> length ?argv" "length ?argv \<le> 4"
    "map_of SERVICE_PATTERNS (arg_schedule_type ?argv) = Some '' LV ''"
    by (simp_all add: arg_schedule_type_def SERVICE_PATTERNS_def)
  have av: "arg_line ?argv = ''15''" "arg_schedule_type ?argv = ''weekday''"
    by (simp_all add: arg_line_def arg_schedule_type_def)
  have miss: "fst (check_cache example_world
      (cache_key_of (sha256_hex example_world) (arg_line ?argv) (arg_stop_name ?argv)
         (arg_schedule_type ?argv)) SCHEDULE_CACHE_TTL) = Inr None"
    by (simp add: example_check_cache)
  have r: "find_route_id (arg_line ?argv) (load_routes example_routes) = Some ''X15''"
    "''X15'' \<noteq> []"
    by (simp_all add: av example_find_route)
  from find_trips_selection [of "''X15''" "'' LV ''" example_trips "[]" "[]" ?argv example_world
      example_routes example_stops]
    args miss example_download example_tables(1,2,3) r example_find_trips(2)
  have "fst (main example_world ?argv) = Exit 1
      \<and> last (snd (main example_world ?argv)) =
            Log (''No trips found for line '' @ arg_line ?argv @ '' on '' @ arg_schedule_type ?argv)"
    by blast
  with d example_find_trips show ?thesis by (simp add: av)
qed

subsection \<open>Aggregation and grouping\<close>

lemma map_of_dd_append:
  "map_of (dd_append d k v) k' =
     (if k' = k then Some ((case map_of d k of None \<Rightarrow> [] | Some vs \<Rightarrow> vs) @ [v])
      else map_of d k')"
  by (simp add: dd_append_def update_conv')

lemma map_of_group_by_direction:
  "map_of (group_by_direction xs by_direction) h =
     (if h \<in> snd ` set xs \<or> map_of by_direction h \<noteq> None
      then Some ((case map_of by_direction h of None \<Rightarrow> [] | Some ts \<Rightarrow> ts)
                 @ map fst (filter (\<lambda>p. snd p = h) xs))
      else None)"
proof (induction xs arbitrary: by_direction)
  case Nil
  then show ?case by (auto split: option.splits)
next
  case (Cons p xs)
  obtain t hs where p: "p = (t, hs)" by (cases p)
  show ?case
    unfolding p group_by_direction.simps Cons.IH map_of_dd_append
    by (auto split: option.splits)
qed

lemma scan_stop_times_values:
  assumes "(sid, tml) \<in> set (get_stop_times si rows trip_info stop_ids)"
  shows "\<exists>l. tml = sort_key fst (si l)"
  using assms by (auto simp: get_stop_times_def)

lemma distinct_times_in_direction:
  assumes "distinct tml"
  shows "distinct (map fst (filter (\<lambda>p. snd p = h) tml))"
proof -
  have "inj_on fst (set (filter (\<lambda>p. snd p = h) tml))"
    by (auto simp: inj_on_def)
  moreover from assms have "distinct (filter (\<lambda>p. snd p = h) tml)" by simp
  ultimately show ?thesis by (simp add: distinct_map)
qed

text \<open>
  Claim C7: for every stop of the aggregation, whatever the order in which Python iterates
  a set, the list of (time, headsign) pairs has no duplicate and is sorted by time; and for
  every direction of the formatter's grouping, the times of the group are those of the
  pairs with that headsign, in the order of the list, so they are non-decreasing in the
  lexicographic order of strings (and without duplicates).
\<close>

theorem stop_times_sorted_unique:
  assumes "set_order si"
    and "(sid, tml) \<in> set (get_stop_times si rows trip_info stop_ids)"
    and "map_of (group_by_direction tml []) direction = Some tms"
  shows "distinct tml \<and> sorted (map fst tml)
       \<and> tms = map fst (filter (\<lambda>p. snd p = direction) tml)
       \<and> sorted tms \<and> distinct tms"
proof -
  from assms(2) obtain l where tml: "tml = sort_key fst (si l)"
    using scan_stop_times_values by blast
  from assms(1) have "distinct (si l)" by (simp add: set_order_def)
  then have d: "distinct tml" by (simp add: tml)
  have s: "sorted (map fst tml)" by (simp add: tml)
  from assms(3) have t: "tms = map fst (filter (\<lambda>p. snd p = direction) tml)"
    by (simp add: map_of_group_by_direction split: if_splits)
  from s have "sorted (map fst (filter (\<lambda>p. snd p = direction) tml))"
    by (rule sorted_filter)
  with d s t distinct_times_in_direction [OF d, of direction] show ?thesis by simp
qed

lemma scan_stop_times_no_stops:
  "scan_stop_times trip_info (Some []) rows times_by_stop = times_by_stop"
  by (induction rows arbitrary: times_by_stop) (auto split: option.splits)

lemma get_stop_times_no_stops: "get_stop_times si rows trip_info (Some []) = []"
  by (simp add: get_stop_times_def scan_stop_times_no_stops)

lemma example_get_stop_times:
  "get_stop_times remdups example_stop_times
     [(''t1'', ''Porta Genova''), (''t4'', ''Centrale FS'')] None =
     [(''S1'', [(''07:10:00'', ''Porta Genova''), (''07:50:00'', ''Centrale FS''),
               (''08:00:00'', ''Porta Genova'')]),
      (''S2'', [(''07:30:00'', ''Centrale FS''), (''08:20:00'', ''Porta Genova'')])]"
  by (simp add: get_stop_times_def example_stop_times_def dd_append_def)

theorem stop_times_sorted_unique_witness:
  "set_order (remdups :: (string \<times> string) list \<Rightarrow> (string \<times> string) list)
   \<and> (''S1'', [(''07:10:00'', ''Porta Genova''), (''07:50:00'', ''Centrale FS''),
               (''08:00:00'', ''Porta Genova'')])
        \<in> set (get_stop_times remdups example_stop_times
              [(''t1'', ''Porta Genova''), (''t4'', ''Centrale FS'')] None)
   \<and> map_of (group_by_direction [(''07:10:00'', ''Porta Genova''), (''07:50:00'', ''Centrale FS''),
               (''08:00:00'', ''Porta Genova'')] []) ''Porta Genova'' = Some [''07:10:00'', ''08:00:00'']
   \<and> sorted [''07:10:00'', ''08:00:00'']"
proof -
  let ?tml = "[(''07:10:00'', ''Porta Genova''), (''07:50:00'', ''Centrale FS''),
               (''08:00:00'', ''Porta Genova'')]"
  have so: "set_order (remdups :: (string \<times> string) list \<Rightarrow> (string \<times> string) list)"
    by (simp add: set_order_def)
  have m: "(''S1'', ?tml) \<in> set (get_stop_times remdups example_stop_times
              [(''t1'', ''Porta Genova''), (''t4'', ''Centrale FS'')] None)"
    by (simp add: example_get_stop_times)
  have g: "map_of (group_by_direction ?tml []) ''Porta Genova'' = Some [''07:10:00'', ''08:00:00'']"
    by (simp add: dd_append_def)
  from stop_times_sorted_unique [OF so m g] have "sorted [''07:10:00'', ''08:00:00'']" by blast
  with so m g show ?thesis by blast
qed

subsection \<open>A stop filter that matches no stop\<close>

lemma example_world_fields:
  "str_lower example_world = example_lower"
  "set_iter example_world = remdups"
  "now_date_path example_world = ''2026/01/15''"
  "now_ts example_world = ''20260115-110000''"
  "utcnow_iso example_world = ''2026-01-15T10:00:00Z''"
  "json_dumps example_world = (\<lambda>j. ''{entry}'')"
  by (simp_all add: example_world_def)

lemma example_no_duomo:
  "find_stops_by_name example_lower ''Duomo'' (load_stops example_stops) = []"
proof -
  have "example_lower ''Duomo'' = ''duomo''"
    "example_lower ''Porta Genova'' = ''porta genova''"
    "example_lower ''Centrale FS'' = ''centrale fs''"
    by (simp_all add: example_lower_def)
  then show ?thesis by (simp add: find_stops_by_name_def example_load_stops)
qed

lemma example_main_query:
  assumes "2 \<le> length argv" and "length argv \<le> 3" and "arg_line argv = ''9''"
  shows "main example_world argv =
     (fst (write_report example_world ''9'' (arg_stop_name argv) ''weekday''
             (cache_key_of (\<lambda>s. s) ''9'' (arg_stop_name argv) ''weekday'') ''T9''
             [(''t1'', ''Porta Genova''), (''t4'', ''Centrale FS'')] (load_stops example_stops)),
      snd (check_cache example_world
             (cache_key_of (\<lambda>s. s) ''9'' (arg_stop_name argv) ''weekday'') SCHEDULE_CACHE_TTL)
      @ snd (download_gtfs example_world)
      @ [Log ''Querying GTFS data for line 9...'',
         ReadTable (GTFS_DIR @ ''/routes.txt''), ReadTable (GTFS_DIR @ ''/stops.txt''),
         ReadTable (GTFS_DIR @ ''/trips.txt'')]
      @ snd (write_report example_world ''9'' (arg_stop_name argv) ''weekday''
             (cache_key_of (\<lambda>s. s) ''9'' (arg_stop_name argv) ''weekday'') ''T9''
             [(''t1'', ''Porta Genova''), (''t4'', ''Centrale FS'')] (load_stops example_stops)))"
proof -
  from assms(2) have t: "arg_schedule_type argv = ''weekday''" by (simp add: arg_schedule_type_def)
  have h: "sha256_hex example_world = (\<lambda>s. s)" by (simp add: example_world_def)
  have a2: "length argv \<le> 4" using assms(2) by simp
  have a4: "map_of SERVICE_PATTERNS (arg_schedule_type argv) = Some '' LV ''"
    by (simp add: t SERVICE_PATTERNS_def)
  have a5: "fst (check_cache example_world (cache_key_of (sha256_hex example_world) (arg_line argv)
      (arg_stop_name argv) (arg_schedule_type argv)) SCHEDULE_CACHE_TTL) = Inr None"
    by (simp add: example_check_cache)
  have r: "find_route_id ''9'' (load_routes example_routes) = Some ''T9''" "''T9'' \<noteq> []"
    by (simp_all add: example_find_route)
  have ne: "find_trips example_trips ''T9'' '' LV '' 50 \<noteq> []"
    by (simp add: example_find_trips)
  note m = main_reaches_query [OF assms(1) a2 a4 a5 example_download]
  note q = run_query_report [OF example_tables(1,2) r example_tables(3) ne]
  show ?thesis
    by (simp add: m assms(3) t h q example_find_trips)
qed

lemma example_write_report_duomo:
  "write_report example_world ''9'' ''Duomo'' ''weekday'' key ''T9''
      [(''t1'', ''Porta Genova''), (''t4'', ''Centrale FS'')] (load_stops example_stops) =
   (Exit 0,
    [Log (''Warning: No stops found matching '' @ [CHR 0x27] @ ''Duomo'' @ [CHR 0x27]),
     Log ''Showing all stops for this line instead'',
     ReadTable (GTFS_DIR @ ''/stop_times.txt''),
     Mkdir (DATA_DIR @ ''/2026/01/15''),
     WriteFile (DATA_DIR @ ''/2026/01/15/20260115-110000-line9-duomo.txt'')
       (format_output ''2026-01-15T10:00:00Z'' ''9'' ''Duomo'' ''weekday'' ''T9''
          [(''t1'', ''Porta Genova''), (''t4'', ''Centrale FS'')] []
          (load_stops example_stops) []),
     StateSet key ''{entry}'']
    @ result_lines ''9'' ''Duomo'' ''weekday''
        (DATA_DIR @ ''/2026/01/15/20260115-110000-line9-duomo.txt'') ''miss'')"
proof -
  have "example_lower ''Duomo'' = ''duomo''" by (simp add: example_lower_def)
  then have s: "slug example_lower ''9'' ''Duomo'' = ''line9-duomo''"
    by (simp add: slug_def slug_fragment_def replace_char_def)
  show ?thesis
    by (simp add: write_report_def example_world_fields example_tables example_no_duomo
        get_stop_times_no_stops scanning_log_def set_cache_state_def s Let_def)
qed

lemma example_write_report_all:
  "write_report example_world ''9'' [] ''weekday'' key ''T9''
      [(''t1'', ''Porta Genova''), (''t4'', ''Centrale FS'')] (load_stops example_stops) =
   (Exit 0,
    [ReadTable (GTFS_DIR @ ''/stop_times.txt''),
     Mkdir (DATA_DIR @ ''/2026/01/15''),
     WriteFile (DATA_DIR @ ''/2026/01/15/20260115-110000-line9-all.txt'')
       (format_output ''2026-01-15T10:00:00Z'' ''9'' [] ''weekday'' ''T9''
          [(''t1'', ''Porta Genova''), (''t4'', ''Centrale FS'')]
          [(''S1'', [(''07:10:00'', ''Porta Genova''), (''07:50:00'', ''Centrale FS''),
                    (''08:00:00'', ''Porta Genova'')]),
           (''S2'', [(''07:30:00'', ''Centrale FS''), (''08:20:00'', ''Porta Genova'')])]
          (load_stops example_stops) []),
     StateSet key ''{entry}'']
    @ result_lines ''9'' [] ''weekday''
        (DATA_DIR @ ''/2026/01/15/20260115-110000-line9-all.txt'') ''miss'')"
proof -
  have s: "slug example_lower ''9'' [] = ''line9-all''" by (simp add: slug_def)
  show ?thesis
    by (simp add: write_report_def example_get_stop_times example_world_fields example_tables
        scanning_log_def set_cache_state_def s Let_def)
qed

text \<open>
  Claim C1 does not hold of the code. When the stop filter matches no stop,
  \<^verbatim>\<open>main\<close> logs that it shows all stops, but it leaves \<^verbatim>\<open>matching_stops\<close>
  the empty list, and \<^verbatim>\<open>get_stop_times\<close> drops the filter only for
  \<^verbatim>\<open>None\<close>: every row fails the test \<^verbatim>\<open>stop_id in stop_ids\<close> (lemma
  \<open>get_stop_times_no_stops\<close>). In the example world the run for line 9 with the filter
  Duomo ends with exit code 0 and the warning, and its report is formatted from the empty
  aggregation, where the run without a filter reports the stops S1 and S2.
\<close>

theorem stop_filter_without_match:
  "find_stops_by_name (str_lower example_world) ''Duomo'' (load_stops example_stops) = []
   \<and> fst (main example_world [''check-tram-schedule.py'', ''9'', ''Duomo'']) = Exit 0
   \<and> Log ''Showing all stops for this line instead''
        \<in> set (snd (main example_world [''check-tram-schedule.py'', ''9'', ''Duomo'']))
   \<and> WriteFile (DATA_DIR @ ''/2026/01/15/20260115-110000-line9-duomo.txt'')
        (format_output ''2026-01-15T10:00:00Z'' ''9'' ''Duomo'' ''weekday'' ''T9''
           [(''t1'', ''Porta Genova''), (''t4'', ''Centrale FS'')] []
           (load_stops example_stops) [])
        \<in> set (snd (main example_world [''check-tram-schedule.py'', ''9'', ''Duomo'']))
   \<and> WriteFile (DATA_DIR @ ''/2026/01/15/20260115-110000-line9-all.txt'')
        (format_output ''2026-01-15T10:00:00Z'' ''9'' [] ''weekday'' ''T9''
           [(''t1'', ''Porta Genova''), (''t4'', ''Centrale FS'')]
           [(''S1'', [(''07:10:00'', ''Porta Genova''), (''07:50:00'', ''Centrale FS''),
                     (''08:00:00'', ''Porta Genova'')]),
            (''S2'', [(''07:30:00'', ''Centrale FS''), (''08:20:00'', ''Porta Genova'')])]
           (load_stops example_stops) [])
        \<in> set (snd (main example_world [''check-tram-schedule.py'', ''9'']))"
proof -
  let ?d = "[''check-tram-schedule.py'', ''9'', ''Duomo'']"
  let ?a = "[''check-tram-schedule.py'', ''9'']"
  have d: "2 \<le> length ?d" "length ?d \<le> 3" "arg_line ?d = ''9''" "arg_stop_name ?d = ''Duomo''"
    by (simp_all add: arg_line_def arg_stop_name_def)
  have a: "2 \<le> length ?a" "length ?a \<le> 3" "arg_line ?a = ''9''" "arg_stop_name ?a = []"
    by (simp_all add: arg_line_def arg_stop_name_def)
  note md = example_main_query [OF d(1,2,3), unfolded d(4) example_write_report_duomo]
  note ma = example_main_query [OF a(1,2,3), unfolded a(4) example_write_report_all]
  have 1: "fst (main example_world ?d) = Exit 0" unfolding md by simp
  have 2: "Log ''Showing all stops for this line instead'' \<in> set (snd (main example_world ?d))"
    unfolding md by simp
  have 3: "WriteFile (DATA_DIR @ ''/2026/01/15/20260115-110000-line9-duomo.txt'')
        (format_output ''2026-01-15T10:00:00Z'' ''9'' ''Duomo'' ''weekday'' ''T9''
           [(''t1'', ''Porta Genova''), (''t4'', ''Centrale FS'')] []
           (load_stops example_stops) [])
        \<in> set (snd (main example_world ?d))"
    unfolding md by simp
  have 4: "WriteFile (DATA_DIR @ ''/2026/01/15/20260115-110000-line9-all.txt'')
        (format_output ''2026-01-15T10:00:00Z'' ''9'' [] ''weekday'' ''T9''
           [(''t1'', ''Porta Genova''), (''t4'', ''Centrale FS'')]
           [(''S1'', [(''07:10:00'', ''Porta Genova''), (''07:50:00'', ''Centrale FS''),
                     (''08:00:00'', ''Porta Genova'')]),
            (''S2'', [(''07:30:00'', ''Centrale FS''), (''08:20:00'', ''Porta Genova'')])]
           (load_stops example_stops) [])
        \<in> set (snd (main example_world ?a))"
    unfolding ma by simp
  have 0: "find_stops_by_name (str_lower example_world) ''Duomo'' (load_stops example_stops) = []"
    by (simp add: example_world_fields example_no_duomo)
  from 0 1 2 3 4 show ?thesis by blast
qed

end
